theory Spec2Isabelle
  imports Complex_Main "HOL-Library.Multiset" "HOL-Library.Sublist"
begin

section \<open>Python strings\<close>

text \<open>
  A Python \<open>str\<close> is a sequence of Unicode code points and \<open>len\<close> counts code points,
  so a string is modelled as a list of code points (natural numbers). \<open>str\<close> turns an
  ASCII literal into such a list.
\<close>

type_synonym pystr = "nat list"

definition str :: "string \<Rightarrow> pystr" where
  "str s = map of_char s"

definition nl :: pystr where
  "nl = [10]"

text \<open>\<open>str.isspace\<close> on one code point: the code points Python's \<open>strip()\<close> removes.\<close>

definition py_isspace :: "nat \<Rightarrow> bool" where
  "py_isspace c \<longleftrightarrow>
     (9 \<le> c \<and> c \<le> 13) \<or> (28 \<le> c \<and> c \<le> 32) \<or> c = 133 \<or> c = 160 \<or> c = 5760 \<or>
     (8192 \<le> c \<and> c \<le> 8202) \<or> c = 8232 \<or> c = 8233 \<or> c = 8239 \<or> c = 8287 \<or> c = 12288"

text \<open>\<open>s.strip()\<close>: leading and trailing whitespace removed.\<close>

definition py_strip :: "pystr \<Rightarrow> pystr" where
  "py_strip s = rev (dropWhile py_isspace (rev (dropWhile py_isspace s)))"

text \<open>\<open>s.startswith(p)\<close> and \<open>s.startswith((p1, ..., pn))\<close>.\<close>

definition py_startswith :: "pystr \<Rightarrow> pystr \<Rightarrow> bool" where
  "py_startswith s p \<longleftrightarrow> take (length p) s = p"

definition py_startswith_any :: "pystr \<Rightarrow> pystr list \<Rightarrow> bool" where
  "py_startswith_any s ps \<longleftrightarrow> list_ex (py_startswith s) ps"

text \<open>\<open>p in s\<close>: the substring test.\<close>

fun py_contains :: "pystr \<Rightarrow> pystr \<Rightarrow> bool" where
  "py_contains p [] = (p = [])"
| "py_contains p (c # cs) = (py_startswith (c # cs) p \<or> py_contains p cs)"

text \<open>\<open>s.find(p)\<close>: the lowest index where \<open>p\<close> occurs in \<open>s\<close>, or \<open>-1\<close>.\<close>

fun py_find :: "pystr \<Rightarrow> pystr \<Rightarrow> int" where
  "py_find [] p = (if p = [] then 0 else - 1)"
| "py_find (c # cs) p =
     (if py_startswith (c # cs) p then 0
      else (let r = py_find cs p in if r = - 1 then - 1 else r + 1))"

text \<open>\<open>s[i:]\<close> for an index \<open>i \<ge> 0\<close> (the only use in the source).\<close>

definition py_slice_from :: "pystr \<Rightarrow> int \<Rightarrow> pystr" where
  "py_slice_from s i = drop (nat i) s"

text \<open>\<open>s.split(sep)\<close> for a one-character separator: always at least one piece.\<close>

fun py_split :: "pystr \<Rightarrow> nat \<Rightarrow> pystr list" where
  "py_split [] sep = [[]]"
| "py_split (c # cs) sep =
     (if c = sep then [] # py_split cs sep
      else (case py_split cs sep of
              [] \<Rightarrow> [[c]]
            | l # ls \<Rightarrow> (c # l) # ls))"

text \<open>\<open>sep.join(xs)\<close>.\<close>

fun py_join :: "pystr \<Rightarrow> pystr list \<Rightarrow> pystr" where
  "py_join sep [] = []"
| "py_join sep [x] = x"
| "py_join sep (x # y # ys) = x @ sep @ py_join sep (y # ys)"

section \<open>Data model (app/models.py, app/schemas.py)\<close>

text \<open>
  UUIDs and datetimes are opaque values; they are modelled as natural numbers.
  \<open>risk_score\<close> and \<open>confidence_rating\<close> are Python floats that are only compared with
  the bounds of their \<open>Field(ge=..., le=...)\<close> declarations; they are modelled as reals.
\<close>

type_synonym uuid = nat
type_synonym datetime = nat

datatype DocumentType = TERMS_OF_SERVICE | PRIVACY_POLICY | CONTRACT | AGREEMENT | OTHER

datatype DocumentStatus = PENDING | PROCESSING | COMPLETED | FAILED

datatype ChatMessageRole = USER | ASSISTANT | SYSTEM

fun DocumentType_value :: "DocumentType \<Rightarrow> pystr" where
  "DocumentType_value TERMS_OF_SERVICE = str ''terms_of_service''"
| "DocumentType_value PRIVACY_POLICY = str ''privacy_policy''"
| "DocumentType_value CONTRACT = str ''contract''"
| "DocumentType_value AGREEMENT = str ''agreement''"
| "DocumentType_value OTHER = str ''other''"

fun DocumentStatus_value :: "DocumentStatus \<Rightarrow> pystr" where
  "DocumentStatus_value PENDING = str ''pending''"
| "DocumentStatus_value PROCESSING = str ''processing''"
| "DocumentStatus_value COMPLETED = str ''completed''"
| "DocumentStatus_value FAILED = str ''failed''"

fun ChatMessageRole_value :: "ChatMessageRole \<Rightarrow> pystr" where
  "ChatMessageRole_value USER = str ''user''"
| "ChatMessageRole_value ASSISTANT = str ''assistant''"
| "ChatMessageRole_value SYSTEM = str ''system''"

text \<open>
  \<open>AnalysisResult\<close> (services/document_analysis.py) is the shape parsed from the model's
  reply; \<open>DocumentAnalysisResult\<close> (schemas.py) adds \<open>analyzed_at\<close> and is what the
  \<open>analysis\<close> column stores (through \<open>model_dump\<close>) and what is read back from it.
\<close>

record AnalysisResult =
  summary :: pystr
  hidden_clauses :: "pystr list"
  risk_assessment :: pystr
  loopholes :: "pystr list"
  red_flags :: "pystr list"
  risk_score :: real
  confidence_rating :: real
  key_concerns :: "pystr list"

record DocumentAnalysisResult = AnalysisResult +
  analyzed_at :: datetime

text \<open>The dictionary stored in the \<open>maskedContent\<close> column.\<close>

record MaskedContent =
  original_content :: pystr
  masked_content :: pystr
  original_length :: nat
  masked_length :: nat
  masked_at :: datetime
  model_used :: pystr

text \<open>
  A row of \<open>documents\<close>, without its primary key (the store below maps the key to the
  row) and without the file and audit columns that no service reads.
\<close>

record Document =
  title :: pystr
  content :: pystr
  doc_type :: DocumentType
  status :: DocumentStatus
  analysis :: "DocumentAnalysisResult option"
  maskedContent :: "MaskedContent option"
  processingStartedAt :: "datetime option"
  processingCompletedAt :: "datetime option"
  errorMessage :: "pystr option"
  userId :: uuid

text \<open>A row of \<open>chat_messages\<close>; \<open>message_metadata\<close> holds only its timestamp.\<close>

record ChatMessage =
  msg_id :: uuid
  msg_content :: pystr
  msg_role :: ChatMessageRole
  sessionId :: "pystr option"
  message_metadata :: datetime
  msg_userId :: uuid
  documentId :: uuid
  createdAt :: datetime

text \<open>
  The persistence store: documents by primary key, chat messages as the table's rows in
  insertion order. Commits always succeed in this model, and requests run one at a time.
\<close>

record db =
  documents :: "uuid \<rightharpoonup> Document"
  chat_messages :: "ChatMessage list"

text \<open>
  \<open>db.query(Document).filter(Document.id == document_id, Document.userId == user_id).first()\<close>
\<close>

definition find_document :: "uuid \<Rightarrow> uuid \<Rightarrow> db \<Rightarrow> Document option" where
  "find_document document_id user_id s =
     (case documents s document_id of
        None \<Rightarrow> None
      | Some d \<Rightarrow> if userId d = user_id then Some d else None)"

text \<open>Writing a changed row back (\<open>db.commit()\<close>).\<close>

definition commit_document :: "uuid \<Rightarrow> Document \<Rightarrow> db \<Rightarrow> db" where
  "commit_document document_id d s = s\<lparr>documents := (documents s)(document_id \<mapsto> d)\<rparr>"

section \<open>Chat service (app/services/chat_service.py)\<close>

text \<open>
  How Python renders a float and an ISO timestamp inside an f-string is not modelled;
  both renderings are parameters.
\<close>

record fmt =
  float_str :: "real \<Rightarrow> pystr"
  isoformat :: "datetime \<Rightarrow> pystr"

text \<open>\<open>chr(10).join(f'- {x}' for x in xs)\<close>\<close>

definition bullets :: "pystr list \<Rightarrow> pystr" where
  "bullets xs = py_join nl (map (\<lambda>x. str ''- '' @ x) xs)"

text \<open>The f-string rendered for a document that has an analysis (lines 39-64).\<close>

definition render_context :: "fmt \<Rightarrow> Document \<Rightarrow> DocumentAnalysisResult \<Rightarrow> pystr" where
  "render_context f document a =
     nl @ str ''Document Information:'' @ nl
     @ str ''- Title: '' @ title document @ nl
     @ str ''- Type: '' @ DocumentType_value (doc_type document) @ nl
     @ str ''- Status: '' @ DocumentStatus_value (status document) @ nl
     @ nl @ str ''Document Analysis Summary:'' @ nl
     @ str ''- Summary: '' @ summary a @ nl
     @ str ''- Risk Score: '' @ float_str f (risk_score a) @ str ''/5'' @ nl
     @ str ''- Confidence Rating: '' @ float_str f (confidence_rating a) @ str ''%'' @ nl
     @ str ''- Risk Assessment: '' @ risk_assessment a @ nl
     @ nl @ str ''Hidden Clauses:'' @ nl @ bullets (hidden_clauses a) @ nl
     @ nl @ str ''Loopholes:'' @ nl @ bullets (loopholes a) @ nl
     @ nl @ str ''Red Flags:'' @ nl @ bullets (red_flags a) @ nl
     @ nl @ str ''Key Concerns:'' @ nl @ bullets (key_concerns a) @ nl
     @ nl @ str ''Analysis Date: '' @ isoformat f (analyzed_at a) @ nl"

text \<open>
  \<open>ChatService._get_document_context\<close> (an Isabelle name cannot start with an
  underscore, so the leading underscore of the private methods is dropped).
\<close>

definition get_document_context :: "fmt \<Rightarrow> uuid \<Rightarrow> uuid \<Rightarrow> db \<Rightarrow> pystr" where
  "get_document_context f document_id user_id s =
     (case find_document document_id user_id s of
        None \<Rightarrow> str ''No document found or access denied.''
      | Some document \<Rightarrow>
          (case analysis document of
             None \<Rightarrow>
               str ''Document '' @ [39] @ title document @ [39]
               @ str '' has not been analyzed yet. Please analyze the document first to get detailed insights.''
           | Some a \<Rightarrow> render_context f document a))"

text \<open>
  The two clock readings of one \<open>_save_message\<close>: \<open>datetime.utcnow()\<close> for the
  metadata and the database's \<open>now()\<close> for \<open>createdAt\<close>.
\<close>

record stamp =
  utcnow :: datetime
  db_now :: datetime

text \<open>
  \<open>ChatService._save_message\<close>: appends one row and returns it. The server-side default
  \<open>uuid_generate_v4()\<close> of the primary key is abstracted to the number of rows.
\<close>

definition save_message ::
  "pystr \<Rightarrow> ChatMessageRole \<Rightarrow> pystr \<Rightarrow> uuid \<Rightarrow> uuid \<Rightarrow> stamp \<Rightarrow> db \<Rightarrow> ChatMessage \<times> db" where
  "save_message content' role session_id document_id user_id t s =
     (let message = \<lparr>msg_id = length (chat_messages s), msg_content = content', msg_role = role,
                      sessionId = Some session_id, message_metadata = utcnow t,
                      msg_userId = user_id, documentId = document_id, createdAt = db_now t\<rparr>
      in (message, s\<lparr>chat_messages := chat_messages s @ [message]\<rparr>))"

text \<open>
  The query shared by \<open>_get_conversation_history\<close> and \<open>get_chat_history\<close>:
  \<open>filter(sessionId == ..., documentId == ..., userId == ...).order_by(createdAt).all()\<close>.
  Rows with equal \<open>createdAt\<close> come out in row order.
\<close>

definition session_filter :: "pystr \<Rightarrow> uuid \<Rightarrow> uuid \<Rightarrow> ChatMessage \<Rightarrow> bool" where
  "session_filter session_id document_id user_id m \<longleftrightarrow>
     sessionId m = Some session_id \<and> documentId m = document_id \<and> msg_userId m = user_id"

definition query_messages :: "pystr \<Rightarrow> uuid \<Rightarrow> uuid \<Rightarrow> db \<Rightarrow> ChatMessage list" where
  "query_messages session_id document_id user_id s =
     sort_key createdAt (filter (session_filter session_id document_id user_id) (chat_messages s))"

text \<open>\<open>ChatService._get_conversation_history\<close>: one (role, content) entry per row.\<close>

definition get_conversation_history :: "pystr \<Rightarrow> uuid \<Rightarrow> uuid \<Rightarrow> db \<Rightarrow> (pystr \<times> pystr) list" where
  "get_conversation_history session_id document_id user_id s =
     foldl (\<lambda>history msg. history @ [(ChatMessageRole_value (msg_role msg), msg_content msg)]) []
       (query_messages session_id document_id user_id s)"

text \<open>\<open>ChatService.get_chat_history\<close>: every column of every row, as a response object.\<close>

definition get_chat_history :: "pystr \<Rightarrow> uuid \<Rightarrow> uuid \<Rightarrow> db \<Rightarrow> ChatMessage list" where
  "get_chat_history session_id document_id user_id s =
     map (\<lambda>msg. \<lparr>msg_id = msg_id msg, msg_content = msg_content msg, msg_role = msg_role msg,
                  sessionId = sessionId msg, message_metadata = message_metadata msg,
                  msg_userId = msg_userId msg, documentId = documentId msg,
                  createdAt = createdAt msg\<rparr>)
       (query_messages session_id document_id user_id s)"

datatype LcMessage = SystemMessage pystr | HumanMessage pystr | AIMessage pystr

definition system_prompt :: "pystr \<Rightarrow> pystr" where
  "system_prompt document_context =
     str ''You are a helpful AI assistant specialized in analyzing and discussing legal documents. '' @ nl
     @ str ''You have access to the following document analysis:'' @ nl
     @ nl @ document_context @ nl
     @ nl @ str ''Use this analysis to answer questions about the document. Be helpful, accurate, and always refer back to the specific '' @ nl
     @ str ''analysis when relevant. If a user asks about something not covered in the analysis, politely explain that you can '' @ nl
     @ str ''only discuss what's covered in the provided document analysis.'' @ nl
     @ nl @ str ''Always maintain a professional and helpful tone while being thorough in your responses.''"

text \<open>The loop of lines 153-157 over \<open>conversation_history[:-1]\<close>.\<close>

fun history_messages :: "(pystr \<times> pystr) list \<Rightarrow> LcMessage list" where
  "history_messages [] = []"
| "history_messages ((role, content') # rest) =
     (if role = str ''user'' then HumanMessage content' # history_messages rest
      else if role = str ''assistant'' then AIMessage content' # history_messages rest
      else history_messages rest)"

text \<open>
  What the caller of \<open>chat_stream\<close> and the outside world observe, in order: a yielded
  tuple \<open>(chunk, message_id)\<close>, a row written by \<open>_save_message\<close>, and the call of
  \<open>self.llm.astream(messages)\<close>.
\<close>

datatype event = Yield pystr "uuid option" | Save ChatMessage | Invoke "LcMessage list"

text \<open>
  The inference provider in streaming mode: the chunks it emits, then either the end of
  the stream (\<open>None\<close>) or an exception with message \<open>str(e)\<close>. A chunk is its \<open>content\<close>,
  or \<open>None\<close> when it has no such attribute.
\<close>

record chat_env =
  astream :: "LcMessage list \<Rightarrow> pystr option list \<times> pystr option"
  user_stamp :: stamp
  assistant_stamp :: stamp

text \<open>
  The \<open>async for\<close> loop of lines 164-167, with \<open>complete_response\<close> and the tuples yielded
  so far as accumulators.
\<close>

fun stream_loop :: "pystr option list \<Rightarrow> pystr \<Rightarrow> event list \<Rightarrow> pystr \<times> event list" where
  "stream_loop [] complete_response out = (complete_response, out)"
| "stream_loop (chunk # chunks) complete_response out =
     (case chunk of
        None \<Rightarrow> stream_loop chunks complete_response out
      | Some c \<Rightarrow>
          if c \<noteq> [] then stream_loop chunks (complete_response @ c) (out @ [Yield c None])
          else stream_loop chunks complete_response out)"

text \<open>
  Lines 134-160 of \<open>chat_stream\<close>: the messages sent to the provider, built from the
  store as it is after the user's message has been saved.
\<close>

definition llm_messages :: "fmt \<Rightarrow> pystr \<Rightarrow> pystr \<Rightarrow> uuid \<Rightarrow> uuid \<Rightarrow> db \<Rightarrow> LcMessage list" where
  "llm_messages f message session_id document_id user_id s1 =
     (let document_context = get_document_context f document_id user_id s1;
          conversation_history = get_conversation_history session_id document_id user_id s1
      in [SystemMessage (system_prompt document_context)]
         @ history_messages (butlast conversation_history)
         @ [HumanMessage message])"

text \<open>
  \<open>ChatService.chat_stream\<close>, consumed to its end: the events in order, and the store
  afterwards.
\<close>

definition chat_stream ::
  "chat_env \<Rightarrow> fmt \<Rightarrow> pystr \<Rightarrow> pystr \<Rightarrow> uuid \<Rightarrow> uuid \<Rightarrow> db \<Rightarrow> event list \<times> db" where
  "chat_stream env f message session_id document_id user_id s =
     (case find_document document_id user_id s of
        None \<Rightarrow> ([Yield (str ''Error: Document not found or access denied.'') None], s)
      | Some document \<Rightarrow>
          (let (user_message, s1) =
                 save_message message USER session_id document_id user_id (user_stamp env) s;
               messages = llm_messages f message session_id document_id user_id s1;
               (chunks, raised) = astream env messages;
               (complete_response, yielded) = stream_loop chunks [] []
           in (case raised of
                 None \<Rightarrow>
                   if complete_response \<noteq> [] then
                     (let (assistant_message, s2) =
                            save_message complete_response ASSISTANT session_id document_id user_id
                              (assistant_stamp env) s1
                      in ([Save user_message, Invoke messages] @ yielded
                          @ [Save assistant_message, Yield [] (Some (msg_id assistant_message))], s2))
                   else ([Save user_message, Invoke messages] @ yielded, s1)
               | Some e \<Rightarrow>
                   (let error_message = str ''Sorry, I encountered an error: '' @ e;
                        (assistant_message, s2) =
                            save_message error_message ASSISTANT session_id document_id user_id
                              (assistant_stamp env) s1
                    in ([Save user_message, Invoke messages] @ yielded
                        @ [Save assistant_message,
                           Yield error_message (Some (msg_id assistant_message))], s2)))))"

text \<open>Projections of an event list.\<close>

fun yielded_chunks :: "event list \<Rightarrow> (pystr \<times> uuid option) list" where
  "yielded_chunks [] = []"
| "yielded_chunks (Yield c i # es) = (c, i) # yielded_chunks es"
| "yielded_chunks (_ # es) = yielded_chunks es"

fun saved_messages :: "event list \<Rightarrow> ChatMessage list" where
  "saved_messages [] = []"
| "saved_messages (Save m # es) = m # saved_messages es"
| "saved_messages (_ # es) = saved_messages es"

section \<open>Document analysis (app/services/document_analysis.py)\<close>

datatype error =
    NotFound uuid       \<comment> \<open>\<open>ValueError(f"Document {document_id} not found or access denied")\<close>\<close>
  | ValidationError pystr   \<comment> \<open>pydantic's error, with its message\<close>
  | MaskingFailed pystr     \<comment> \<open>\<open>Exception(f"Failed to mask document content: {str(e)}")\<close>\<close>

record AnalyzeDocumentResponse =
  r_document_id :: uuid
  r_status :: DocumentStatus
  r_analysis :: "DocumentAnalysisResult option"
  r_processing_started_at :: "datetime option"
  r_processing_completed_at :: "datetime option"
  r_error_message :: "pystr option"

text \<open>The dictionary passed to \<open>chain.ainvoke\<close> (lines 119-126).\<close>

record chain_inputs =
  in_title :: pystr
  in_doc_type :: pystr
  in_content :: pystr
  in_content_source :: pystr
  in_content_description :: pystr
  in_content_note :: pystr

text \<open>
  The outside world of one \<open>analyze_document\<close> call. \<open>llm\<close> is \<open>prompt | self.llm\<close>
  followed by the decoding of the reply: an exception with message \<open>str(e)\<close> (network or
  provider error, a reply that is not an object of the expected shape), or an object of
  the shape of \<open>AnalysisResult\<close> whose numbers are not yet checked.
  \<open>validation_message\<close> is the text of the error raised for numbers out of range.
  The three clock readings are those of lines 65, 138 and 144 (or 161).
\<close>

record analysis_env =
  llm :: "chain_inputs \<Rightarrow> pystr + AnalysisResult"
  validation_message :: "real \<Rightarrow> real \<Rightarrow> pystr"
  t_started :: datetime
  t_analyzed :: datetime
  t_completed :: datetime

text \<open>
  The range constraints \<open>Field(ge=1, le=5)\<close> and \<open>Field(ge=0, le=100)\<close>, declared alike
  on \<open>AnalysisResult\<close> and on \<open>DocumentAnalysisResult\<close>.
\<close>

definition in_range :: "'a AnalysisResult_scheme \<Rightarrow> bool" where
  "in_range r \<longleftrightarrow>
     1 \<le> risk_score r \<and> risk_score r \<le> 5 \<and> 0 \<le> confidence_rating r \<and> confidence_rating r \<le> 100"

text \<open>Constructing a pydantic model: the fields, or a validation error.\<close>

definition validated ::
  "analysis_env \<Rightarrow> 'a AnalysisResult_scheme \<Rightarrow> pystr + 'a AnalysisResult_scheme" where
  "validated env r =
     (if in_range r then Inr r
      else Inl (validation_message env (risk_score r) (confidence_rating r)))"

text \<open>\<open>chain = prompt | self.llm | self.output_parser\<close>\<close>

definition ainvoke :: "analysis_env \<Rightarrow> chain_inputs \<Rightarrow> pystr + AnalysisResult" where
  "ainvoke env inputs =
     (case llm env inputs of
        Inl e \<Rightarrow> Inl e
      | Inr r \<Rightarrow> validated env r)"

text \<open>Lines 69-83 and 119-126: which content is analysed.\<close>

definition analysis_inputs :: "Document \<Rightarrow> chain_inputs" where
  "analysis_inputs document =
     (if (case maskedContent document of None \<Rightarrow> False | Some m \<Rightarrow> masked_content m \<noteq> [])
      then \<lparr>in_title = title document,
            in_doc_type = DocumentType_value (doc_type document),
            in_content = masked_content (the (maskedContent document)),
            in_content_source = str ''masked'',
            in_content_description = str ''PII has been masked for privacy'',
            in_content_note = str ''Note: Personal identifiable information (PII) has been masked in this document for privacy protection.''\<rparr>
      else \<lparr>in_title = title document,
            in_doc_type = DocumentType_value (doc_type document),
            in_content = content document,
            in_content_source = str ''original'',
            in_content_description = str ''original unmasked content'',
            in_content_note = []\<rparr>)"

text \<open>The three groups of assignments to the row (lines 64-66, 142-144, 159-161).\<close>

definition mark_processing :: "analysis_env \<Rightarrow> Document \<Rightarrow> Document" where
  "mark_processing env document =
     document\<lparr>status := PROCESSING, processingStartedAt := Some (t_started env),
              errorMessage := None\<rparr>"

definition mark_completed :: "analysis_env \<Rightarrow> DocumentAnalysisResult \<Rightarrow> Document \<Rightarrow> Document" where
  "mark_completed env analysis_data document =
     document\<lparr>analysis := Some analysis_data, status := COMPLETED,
              processingCompletedAt := Some (t_completed env)\<rparr>"

definition mark_failed :: "analysis_env \<Rightarrow> pystr \<Rightarrow> Document \<Rightarrow> Document" where
  "mark_failed env e document =
     document\<lparr>status := FAILED, errorMessage := Some e,
              processingCompletedAt := Some (t_completed env)\<rparr>"

text \<open>The \<open>except Exception as e\<close> branch (lines 157-170).\<close>

definition analysis_failed ::
  "analysis_env \<Rightarrow> uuid \<Rightarrow> Document \<Rightarrow> pystr \<Rightarrow> db \<Rightarrow> AnalyzeDocumentResponse \<times> db" where
  "analysis_failed env document_id document e s =
     (let document' = mark_failed env e document
      in (\<lparr>r_document_id = document_id, r_status = status document', r_analysis = None,
           r_processing_started_at = processingStartedAt document',
           r_processing_completed_at = processingCompletedAt document',
           r_error_message = Some e\<rparr>,
          commit_document document_id document' s))"

text \<open>
  \<open>DocumentAnalysisService.analyze_document\<close>: the value returned or the exception raised,
  the store afterwards, and the calls made to the inference provider.
\<close>

definition analyze_document ::
  "analysis_env \<Rightarrow> uuid \<Rightarrow> uuid \<Rightarrow> db \<Rightarrow> (error + AnalyzeDocumentResponse) \<times> db \<times> chain_inputs list" where
  "analyze_document env document_id user_id s =
     (case find_document document_id user_id s of
        None \<Rightarrow> (Inl (NotFound document_id), s, [])
      | Some document \<Rightarrow>
          if status document = COMPLETED \<and> analysis document \<noteq> None then
            (case validated env (the (analysis document)) of
               Inl e \<Rightarrow> (Inl (ValidationError e), s, [])
             | Inr analysis_result \<Rightarrow>
                 (Inr \<lparr>r_document_id = document_id, r_status = status document,
                       r_analysis = Some analysis_result,
                       r_processing_started_at = processingStartedAt document,
                       r_processing_completed_at = processingCompletedAt document,
                       r_error_message = None\<rparr>, s, []))
          else
            (let document1 = mark_processing env document;
                 s1 = commit_document document_id document1 s;
                 inputs = analysis_inputs document1
             in (case ainvoke env inputs of
                   Inl e \<Rightarrow>
                     (let (response, s2) = analysis_failed env document_id document1 e s1
                      in (Inr response, s2, [inputs]))
                 | Inr result \<Rightarrow>
                     (case validated env
                             \<lparr>summary = summary result, hidden_clauses = hidden_clauses result,
                              risk_assessment = risk_assessment result, loopholes = loopholes result,
                              red_flags = red_flags result, risk_score = risk_score result,
                              confidence_rating = confidence_rating result,
                              key_concerns = key_concerns result, analyzed_at = t_analyzed env\<rparr> of
                        Inl e \<Rightarrow>
                          (let (response, s2) = analysis_failed env document_id document1 e s1
                           in (Inr response, s2, [inputs]))
                      | Inr analysis_data \<Rightarrow>
                          (let document2 = mark_completed env analysis_data document1;
                               s2 = commit_document document_id document2 s1
                           in (Inr \<lparr>r_document_id = document_id, r_status = status document2,
                                     r_analysis = Some analysis_data,
                                     r_processing_started_at = processingStartedAt document2,
                                     r_processing_completed_at = processingCompletedAt document2,
                                     r_error_message = None\<rparr>, s2, [inputs]))))))"

text \<open>
  The store as other requests see it while the provider call of \<open>analyze_document\<close> is
  pending: the row committed at line 67.
\<close>

definition analysis_in_progress :: "analysis_env \<Rightarrow> uuid \<Rightarrow> uuid \<Rightarrow> db \<Rightarrow> db" where
  "analysis_in_progress env document_id user_id s =
     (case find_document document_id user_id s of
        None \<Rightarrow> s
      | Some document \<Rightarrow>
          if status document = COMPLETED \<and> analysis document \<noteq> None then s
          else commit_document document_id (mark_processing env document) s)"

text \<open>
  \<open>create_document\<close> and \<open>delete_document\<close> of app/routers/document_analysis.py.
  \<open>new_id\<close> is the primary key the database generates for the new row.
\<close>

definition create_document :: "uuid \<Rightarrow> pystr \<Rightarrow> pystr \<Rightarrow> DocumentType \<Rightarrow> uuid \<Rightarrow> db \<Rightarrow> db" where
  "create_document new_id title' content' type' user_id s =
     commit_document new_id
       \<lparr>title = title', content = content', doc_type = type', status = PENDING,
        analysis = None, maskedContent = None, processingStartedAt = None,
        processingCompletedAt = None, errorMessage = None, userId = user_id\<rparr> s"

definition delete_document :: "uuid \<Rightarrow> uuid \<Rightarrow> db \<Rightarrow> db" where
  "delete_document document_id user_id s =
     (case find_document document_id user_id s of
        None \<Rightarrow> s
      | Some document \<Rightarrow>
          s\<lparr>documents := (documents s)(document_id := None),
            chat_messages := filter (\<lambda>m. documentId m \<noteq> document_id) (chat_messages s)\<rparr>)"

section \<open>PII masking (app/services/pii_masking.py)\<close>

text \<open>The f-string of lines 22-51.\<close>

definition masking_prompt :: "pystr \<Rightarrow> pystr" where
  "masking_prompt text' =
     str ''You are a PII (Personally Identifiable Information) masking expert. Your task is to identify and mask any PII in the provided text while preserving the document's meaning and structure.'' @ nl
     @ nl
     @ str ''PII to mask includes:'' @ nl
     @ str ''- Names (first, last, full names)'' @ nl
     @ str ''- Email addresses'' @ nl
     @ str ''- Phone numbers'' @ nl
     @ str ''- Social Security Numbers'' @ nl
     @ str ''- Credit card numbers'' @ nl
     @ str ''- Addresses (street, city, state, zip)'' @ nl
     @ str ''- IP addresses'' @ nl
     @ str ''- Driver's license numbers'' @ nl
     @ str ''- Passport numbers'' @ nl
     @ str ''- Bank account numbers'' @ nl
     @ str ''- Date of birth'' @ nl
     @ str ''- Medical record numbers'' @ nl
     @ str ''- Employee IDs'' @ nl
     @ str ''- License plate numbers'' @ nl
     @ nl
     @ str ''Instructions:'' @ nl
     @ str ''1. Replace each PII item with a generic placeholder in brackets, like [NAME], [EMAIL], [PHONE], [ADDRESS], [SSN], etc.'' @ nl
     @ str ''2. Keep the same format and structure of the original text'' @ nl
     @ str ''3. Do not change any non-PII content'' @ nl
     @ str ''4. If no PII is found, return the original text unchanged'' @ nl
     @ str ''5. Respond ONLY with the masked text, no explanations, thinking process, or additional content'' @ nl
     @ str ''6. Do not include any reasoning or analysis - just provide the final masked text'' @ nl
     @ nl
     @ str ''Text to mask:'' @ nl
     @ text'
     @ nl
     @ nl
     @ str ''Masked text:''"

text \<open>
  The outside world of one masking call. \<open>ollama\<close> is the HTTP request of lines 63-68:
  an exception with message \<open>str(e)\<close>, or \<open>result.get("response", "")\<close>.
  \<open>model\<close> is \<open>settings.ollama_model\<close>.
\<close>

record masking_env =
  ollama :: "pystr \<Rightarrow> pystr + pystr"
  model :: pystr
  t_masked :: datetime

text \<open>Lines 70-75: the text after the thinking block.\<close>

definition skip_thinking :: "pystr \<Rightarrow> pystr" where
  "skip_thinking raw_response =
     (if py_contains (str ''<think>'') raw_response \<and> py_contains (str ''</think>'') raw_response
      then (let thinking_end = py_find raw_response (str ''</think>'')
            in if thinking_end \<noteq> - 1
               then py_strip (py_slice_from raw_response (thinking_end + 8))
               else raw_response)
      else raw_response)"

text \<open>Lines 78-87: the loop over the lines, with \<open>masked_content\<close> as accumulator.\<close>

definition preamble_prefixes :: "pystr list" where
  "preamble_prefixes = [str ''Here'', str ''The'', str ''I've'', str ''This'']"

fun keep_lines :: "pystr list \<Rightarrow> pystr list \<Rightarrow> pystr list" where
  "keep_lines [] masked_content' = masked_content'"
| "keep_lines (line # lines) masked_content' =
     (let line' = py_strip line
      in if line' \<noteq> [] \<and> \<not> py_startswith_any line' preamble_prefixes
         then keep_lines lines (masked_content' @ [line'])
         else keep_lines lines masked_content')"

definition clean_response :: "pystr \<Rightarrow> pystr" where
  "clean_response raw_response =
     (let lines = py_split raw_response 10;
          masked_content' = keep_lines lines []
      in if masked_content' \<noteq> [] then py_join (str '' '') masked_content'
         else py_strip raw_response)"

text \<open>\<open>PIIMaskingService.mask_pii\<close>: the masked text, or the message of the exception.\<close>

definition mask_pii :: "masking_env \<Rightarrow> pystr \<Rightarrow> pystr + pystr" where
  "mask_pii env text' =
     (case ollama env (masking_prompt text') of
        Inl e \<Rightarrow> Inl e
      | Inr raw_response \<Rightarrow> Inr (clean_response (skip_thinking raw_response)))"

record MaskResponse =
  m_document_id :: uuid
  m_masked_content :: pystr
  m_original_length :: nat
  m_masked_length :: nat
  m_masked_at :: datetime

text \<open>\<open>PIIMaskingService.mask_document_content\<close>\<close>

definition mask_document_content ::
  "masking_env \<Rightarrow> uuid \<Rightarrow> uuid \<Rightarrow> db \<Rightarrow> (error + MaskResponse) \<times> db" where
  "mask_document_content env document_id user_id s =
     (case find_document document_id user_id s of
        None \<Rightarrow> (Inl (NotFound document_id), s)
      | Some document \<Rightarrow>
          (case mask_pii env (content document) of
             Inl e \<Rightarrow> (Inl (MaskingFailed (str ''Failed to mask document content: '' @ e)), s)
           | Inr masked \<Rightarrow>
               (let masked_data = \<lparr>original_content = content document, masked_content = masked,
                                   original_length = length (content document),
                                   masked_length = length masked,
                                   masked_at = t_masked env, model_used = model env\<rparr>;
                    document' = document\<lparr>maskedContent := Some masked_data\<rparr>;
                    s' = commit_document document_id document' s
                in (Inr \<lparr>m_document_id = document_id, m_masked_content = masked,
                          m_original_length = length (content document'),
                          m_masked_length = length masked,
                          m_masked_at = masked_at masked_data\<rparr>, s'))))"

section \<open>Reachable stores\<close>

definition empty_store :: db where
  "empty_store = \<lparr>documents = Map.empty, chat_messages = []\<rparr>"

text \<open>
  The stores that the operations on documents produce from the empty store, one request
  at a time, with any behaviour of the providers and the clock. The store committed
  while an analysis waits for the provider is reachable as well.
\<close>

inductive reachable :: "db \<Rightarrow> bool" where
  empty: "reachable empty_store"
| create: "reachable s \<Longrightarrow> documents s new_id = None \<Longrightarrow>
           reachable (create_document new_id title' content' type' user_id s)"
| analyze: "reachable s \<Longrightarrow> reachable (fst (snd (analyze_document env document_id user_id s)))"
| in_progress: "reachable s \<Longrightarrow> reachable (analysis_in_progress env document_id user_id s)"
| mask: "reachable s \<Longrightarrow> reachable (snd (mask_document_content menv document_id user_id s))"
| delete: "reachable s \<Longrightarrow> reachable (delete_document document_id user_id s)"
| chat: "reachable s \<Longrightarrow>
         reachable (snd (chat_stream cenv f message session_id document_id user_id s))"

text \<open>
  A stored analysis is consistent with the status of its document: there is none and
  the document is not completed, or it is within the ranges and the document is completed.
\<close>

definition analysis_consistent :: "Document \<Rightarrow> bool" where
  "analysis_consistent d \<longleftrightarrow>
     (case analysis d of None \<Rightarrow> status d \<noteq> COMPLETED | Some a \<Rightarrow> in_range a \<and> status d = COMPLETED)"

definition store_consistent :: "db \<Rightarrow> bool" where
  "store_consistent s \<longleftrightarrow> (\<forall>k d. documents s k = Some d \<longrightarrow> analysis_consistent d)"

section \<open>Notions used to state the properties\<close>

text \<open>
  The text fragments a stream carries: the contents of the chunks that have a non-empty
  content, in the order of emission.
\<close>

definition emitted_fragments :: "pystr option list \<Rightarrow> pystr list" where
  "emitted_fragments chunks = filter (\<lambda>c. c \<noteq> []) (map the (filter (\<lambda>c. c \<noteq> None) chunks))"

text \<open>
  The cleaning of a masking reply, written without the helper functions of the model
  above. Whitespace is what Python's \<open>strip()\<close> removes; a line is a maximal run
  without a line feed; a line is preamble when one of the four words is a prefix of it.
\<close>

definition python_whitespace :: "nat list" where
  "python_whitespace =
     [9, 10, 11, 12, 13, 28, 29, 30, 31, 32, 133, 160, 5760,
      8192, 8193, 8194, 8195, 8196, 8197, 8198, 8199, 8200, 8201, 8202,
      8232, 8233, 8239, 8287, 12288]"

definition spec_strip :: "pystr \<Rightarrow> pystr" where
  "spec_strip s =
     dropWhile (\<lambda>c. c \<in> set python_whitespace)
       (rev (dropWhile (\<lambda>c. c \<in> set python_whitespace) (rev s)))"

definition spec_lines :: "pystr \<Rightarrow> pystr list" where
  "spec_lines s = foldr (\<lambda>c ls. if c = 10 then [] # ls else (c # hd ls) # tl ls) s [[]]"

definition spec_preamble :: "pystr \<Rightarrow> bool" where
  "spec_preamble line \<longleftrightarrow>
     list_ex (\<lambda>w. prefix w line) [str ''Here'', str ''The'', str ''I've'', str ''This'']"

definition spec_join_spaces :: "pystr list \<Rightarrow> pystr" where
  "spec_join_spaces ls =
     (case ls of [] \<Rightarrow> [] | l # rest \<Rightarrow> l @ concat (map (\<lambda>x. 32 # x) rest))"

text \<open>
  The cleaning as the code does it: every line is stripped first; the stripped lines
  that are empty or preamble are discarded and the rest is joined with single spaces;
  if no line survives, the stripped text is returned.
\<close>

definition spec_clean_response :: "pystr \<Rightarrow> pystr" where
  "spec_clean_response text' =
     (let kept = filter (\<lambda>line. \<not> (line = [] \<or> spec_preamble line))
                   (map spec_strip (spec_lines text'))
      in if kept = [] then spec_strip text' else spec_join_spaces kept)"

text \<open>
  The cleaning in the words of the specification read literally, the lines taken as
  they are: every line that is empty or begins with one of the four words is discarded
  and the surviving lines are joined with single spaces; if no line survives, the
  stripped text is returned.
\<close>

definition spec_clean_response_unstripped :: "pystr \<Rightarrow> pystr" where
  "spec_clean_response_unstripped text' =
     (let kept = filter (\<lambda>line. \<not> (line = [] \<or> spec_preamble line)) (spec_lines text')
      in if kept = [] then spec_strip text' else spec_join_spaces kept)"

section \<open>Example stores and providers\<close>

definition example_fmt :: fmt where
  "example_fmt = \<lparr>float_str = (\<lambda>x. []), isoformat = (\<lambda>t. [])\<rparr>"

text \<open>Two pending documents of user 7.\<close>

definition example_store :: db where
  "example_store =
     create_document 12 (str ''B'') (str ''Bob, 2 High St'') OTHER 7
       (create_document 11 (str ''A'') (str ''Alice, 1 Main St'') CONTRACT 7 empty_store)"

text \<open>A stream of four chunks, one with an empty content and one without content.\<close>

definition example_chat_env :: chat_env where
  "example_chat_env =
     \<lparr>astream = (\<lambda>messages. ([Some (str ''Hel''), Some [], None, Some (str ''lo'')], None)),
      user_stamp = \<lparr>utcnow = 10, db_now = 10\<rparr>,
      assistant_stamp = \<lparr>utcnow = 12, db_now = 12\<rparr>\<rparr>"

text \<open>A stream that ends normally after a single chunk with an empty content.\<close>

definition silent_chat_env :: chat_env where
  "silent_chat_env =
     \<lparr>astream = (\<lambda>messages. ([Some []], None)),
      user_stamp = \<lparr>utcnow = 10, db_now = 10\<rparr>,
      assistant_stamp = \<lparr>utcnow = 12, db_now = 12\<rparr>\<rparr>"

text \<open>A provider whose reply is within the ranges.\<close>

definition example_analysis_env :: analysis_env where
  "example_analysis_env =
     \<lparr>llm = (\<lambda>inputs. Inr \<lparr>summary = str ''Terms'', hidden_clauses = [str ''Auto-renewal''],
                              risk_assessment = str ''Moderate'', loopholes = [], red_flags = [],
                              risk_score = 2, confidence_rating = 90, key_concerns = []\<rparr>),
      validation_message = (\<lambda>risk confidence. str ''Input should be in range''),
      t_started = 20, t_analyzed = 21, t_completed = 22\<rparr>"

text \<open>A provider whose reply has a risk score of 7.\<close>

definition malformed_analysis_env :: analysis_env where
  "malformed_analysis_env =
     \<lparr>llm = (\<lambda>inputs. Inr \<lparr>summary = str ''Terms'', hidden_clauses = [],
                              risk_assessment = str ''Extreme'', loopholes = [], red_flags = [],
                              risk_score = 7, confidence_rating = 90, key_concerns = []\<rparr>),
      validation_message = (\<lambda>risk confidence. str ''Input should be in range''),
      t_started = 30, t_analyzed = 31, t_completed = 32\<rparr>"

text \<open>A provider call that raises an exception whose \<open>str(e)\<close> is the empty string.\<close>

definition silent_error_env :: analysis_env where
  "silent_error_env =
     \<lparr>llm = (\<lambda>inputs. Inl []),
      validation_message = (\<lambda>risk confidence. str ''Input should be in range''),
      t_started = 30, t_analyzed = 31, t_completed = 32\<rparr>"

definition analyzed_store :: db where
  "analyzed_store = fst (snd (analyze_document example_analysis_env 11 7 example_store))"

text \<open>A masking reply with a thinking block and a line of preamble.\<close>

definition example_reply :: pystr where
  "example_reply =
     str ''<think>Find names</think>'' @ nl @ str ''Here is the masked text:'' @ nl
     @ str ''[NAME], [ADDRESS]''"

definition example_masking_env :: masking_env where
  "example_masking_env =
     \<lparr>ollama = (\<lambda>prompt. Inr example_reply), model = str ''deepseek-r1:8b'', t_masked = 40\<rparr>"

definition failing_masking_env :: masking_env where
  "failing_masking_env =
     \<lparr>ollama = (\<lambda>prompt. Inl (str ''Connection refused'')), model = str ''deepseek-r1:8b'',
      t_masked = 40\<rparr>"

text \<open>
  A reply with a thinking block, one line of preamble for each of the four words, an
  empty line and two lines of masked text with surrounding whitespace.
\<close>

definition thinking_reply :: pystr where
  "thinking_reply =
     str ''<think>plan</think>'' @ nl @ str '' Here is the text:'' @ nl
     @ str ''The result'' @ nl @ str ''I've masked it'' @ nl @ str ''This is it'' @ nl @ nl
     @ str ''  [NAME] lives  '' @ nl @ str ''at [ADDRESS]''"

definition thinking_masking_env :: masking_env where
  "thinking_masking_env =
     \<lparr>ollama = (\<lambda>prompt. Inr thinking_reply), model = str ''deepseek-r1:8b'', t_masked = 40\<rparr>"

text \<open>A reply without thinking block whose only line is preamble.\<close>

definition preamble_reply :: pystr where
  "preamble_reply = str ''  The x  ''"

definition preamble_masking_env :: masking_env where
  "preamble_masking_env =
     \<lparr>ollama = (\<lambda>prompt. Inr preamble_reply), model = str ''deepseek-r1:8b'', t_masked = 40\<rparr>"

text \<open>A reply whose lines have surrounding whitespace.\<close>

definition indented_reply :: pystr where
  "indented_reply = str ''  Here is it'' @ nl @ str '' [NAME] '' @ nl @ str ''x''"

definition indented_masking_env :: masking_env where
  "indented_masking_env =
     \<lparr>ollama = (\<lambda>prompt. Inr indented_reply), model = str ''deepseek-r1:8b'', t_masked = 40\<rparr>"

text \<open>
  A table with the two messages of session s1, document 11, user 7, stored latest first,
  and one message each of another session, another document and another user.
\<close>

definition example_chat_store :: db where
  "example_chat_store =
     \<lparr>documents = Map.empty,
      chat_messages =
        [\<lparr>msg_id = 0, msg_content = str ''later'', msg_role = ASSISTANT, sessionId = Some (str ''s1''),
          message_metadata = 5, msg_userId = 7, documentId = 11, createdAt = 5\<rparr>,
         \<lparr>msg_id = 1, msg_content = str ''other session'', msg_role = USER, sessionId = Some (str ''s2''),
          message_metadata = 1, msg_userId = 7, documentId = 11, createdAt = 1\<rparr>,
         \<lparr>msg_id = 2, msg_content = str ''other document'', msg_role = USER, sessionId = Some (str ''s1''),
          message_metadata = 2, msg_userId = 7, documentId = 12, createdAt = 2\<rparr>,
         \<lparr>msg_id = 3, msg_content = str ''other user'', msg_role = USER, sessionId = Some (str ''s1''),
          message_metadata = 4, msg_userId = 8, documentId = 11, createdAt = 4\<rparr>,
         \<lparr>msg_id = 4, msg_content = str ''earlier'', msg_role = USER, sessionId = Some (str ''s1''),
          message_metadata = 3, msg_userId = 7, documentId = 11, createdAt = 3\<rparr>]\<rparr>"

section \<open>Properties\<close>

lemma stream_loop_eq:
  "stream_loop chunks acc out =
     (acc @ concat (emitted_fragments chunks),
      out @ map (\<lambda>c. Yield c None) (emitted_fragments chunks))"
  unfolding emitted_fragments_def
  by (induction chunks arbitrary: acc out) (auto split: option.splits)


lemma saved_messages_append: "saved_messages (xs @ ys) = saved_messages xs @ saved_messages ys"
  by (induction xs rule: saved_messages.induct) auto


lemma saved_messages_Yields: "saved_messages (map (\<lambda>c. Yield c None) cs) = []"
  by (induction cs) auto

lemma chat_stream_found:
  assumes "find_document document_id user_id s = Some document"
      and "save_message message USER session_id document_id user_id (user_stamp env) s = (u, s1)"
      and "astream env (llm_messages f message session_id document_id user_id s1) = (chunks, raised)"
  shows "chat_stream env f message session_id document_id user_id s =
     (let messages = llm_messages f message session_id document_id user_id s1;
          frags = emitted_fragments chunks;
          reply = (case raised of None \<Rightarrow> concat frags
                   | Some e \<Rightarrow> str ''Sorry, I encountered an error: '' @ e);
          a = fst (save_message reply ASSISTANT session_id document_id user_id (assistant_stamp env) s1);
          s2 = snd (save_message reply ASSISTANT session_id document_id user_id (assistant_stamp env) s1)
      in if raised = None \<and> concat frags = []
         then ([Save u, Invoke messages] @ map (\<lambda>c. Yield c None) frags, s1)
         else ([Save u, Invoke messages] @ map (\<lambda>c. Yield c None) frags
               @ [Save a, Yield (if raised = None then [] else reply) (Some (msg_id a))], s2))"
  using assms
  by (auto simp: chat_stream_def stream_loop_eq Let_def split: option.splits prod.splits)

lemma query_messages_length:
  "length (query_messages session_id document_id user_id s) =
     length (filter (session_filter session_id document_id user_id) (chat_messages s))"
  by (simp add: query_messages_def)

text \<open>
  C1 (as amended). For every conversational turn on an existing, caller-owned document,
  exactly one user message is persisted before the inference provider is called. After
  the stream ends, exactly one assistant message is persisted if the stream raised or
  the accumulated text is non-empty, and none if the stream ended normally with an empty
  accumulated text. The number of persisted messages of the (session, document, user)
  tuple therefore grows by 2 in the first case and by 1 in the second.
\<close>

theorem chat_turn_persists_messages:
  assumes "find_document document_id user_id s = Some document"
  shows "let (u, s1) = save_message message USER session_id document_id user_id (user_stamp env) s;
             messages = llm_messages f message session_id document_id user_id s1;
             (chunks, raised) = astream env messages;
             quiet = (raised = None \<and> concat (emitted_fragments chunks) = []);
             (events, s') = chat_stream env f message session_id document_id user_id s
         in msg_role u = USER \<and> msg_content u = message
            \<and> (\<exists>tail. events = [Save u, Invoke messages]
                                 @ map (\<lambda>c. Yield c None) (emitted_fragments chunks) @ tail
                  \<and> (if quiet then tail = []
                      else (\<exists>a reply. tail = [Save a, Yield reply (Some (msg_id a))]
                                      \<and> msg_role a = ASSISTANT)))
            \<and> chat_messages s' = chat_messages s @ saved_messages events
            \<and> length (query_messages session_id document_id user_id s') =
                length (query_messages session_id document_id user_id s) + (if quiet then 1 else 2)"
proof -
  obtain u s1 where us: "save_message message USER session_id document_id user_id (user_stamp env) s = (u, s1)"
    by (cases "save_message message USER session_id document_id user_id (user_stamp env) s")
  obtain chunks raised where cr:
    "astream env (llm_messages f message session_id document_id user_id s1) = (chunks, raised)"
    by (cases "astream env (llm_messages f message session_id document_id user_id s1)")
  have u: "u = \<lparr>msg_id = length (chat_messages s), msg_content = message, msg_role = USER,
                 sessionId = Some session_id, message_metadata = utcnow (user_stamp env),
                 msg_userId = user_id, documentId = document_id, createdAt = db_now (user_stamp env)\<rparr>"
    and s1: "s1 = s\<lparr>chat_messages := chat_messages s @ [u]\<rparr>"
    using us by (auto simp: save_message_def Let_def)
  note run = chat_stream_found [OF assms us cr]
  show ?thesis
  proof (cases "raised = None \<and> concat (emitted_fragments chunks) = []")
    case True
    then show ?thesis
      using run us cr u s1
      by (simp add: Let_def saved_messages_append saved_messages_Yields query_messages_length
            session_filter_def)
  next
    case False
    then show ?thesis
      using run us cr u s1
      by (simp add: Let_def saved_messages_append saved_messages_Yields query_messages_length
            session_filter_def save_message_def)
  qed
qed

theorem chat_turn_persists_messages_witness:
  "find_document 11 7 example_store \<noteq> None
   \<and> length (query_messages (str ''s1'') 11 7
        (snd (chat_stream example_chat_env example_fmt (str ''hi'') (str ''s1'') 11 7 example_store))) =
     length (query_messages (str ''s1'') 11 7 example_store) + 2"
proof -
  have found: "find_document 11 7 example_store =
      Some \<lparr>title = str ''A'', content = str ''Alice, 1 Main St'', doc_type = CONTRACT,
            status = PENDING, analysis = None, maskedContent = None, processingStartedAt = None,
            processingCompletedAt = None, errorMessage = None, userId = 7\<rparr>"
    by (simp add: find_document_def example_store_def create_document_def commit_document_def
          empty_store_def)
  show ?thesis
    using found
      chat_turn_persists_messages [OF found, of "str ''hi''" "str ''s1''" example_chat_env example_fmt]
    by (auto simp: Let_def example_chat_env_def emitted_fragments_def str_def
          split: prod.splits)
qed

text \<open>
  A turn whose stream ends normally without any text persists the user's message only.
\<close>

theorem chat_turn_grows_by_two_counterexample:
  "find_document 11 7 example_store \<noteq> None
   \<and> map msg_role (saved_messages
        (fst (chat_stream silent_chat_env example_fmt (str ''hi'') (str ''s1'') 11 7 example_store))) =
     [USER]
   \<and> length (query_messages (str ''s1'') 11 7
        (snd (chat_stream silent_chat_env example_fmt (str ''hi'') (str ''s1'') 11 7 example_store))) =
     length (query_messages (str ''s1'') 11 7 example_store) + 1
   \<and> length (query_messages (str ''s1'') 11 7
        (snd (chat_stream silent_chat_env example_fmt (str ''hi'') (str ''s1'') 11 7 example_store))) \<noteq>
     length (query_messages (str ''s1'') 11 7 example_store) + 2"
proof -
  have found: "find_document 11 7 example_store =
      Some \<lparr>title = str ''A'', content = str ''Alice, 1 Main St'', doc_type = CONTRACT,
            status = PENDING, analysis = None, maskedContent = None, processingStartedAt = None,
            processingCompletedAt = None, errorMessage = None, userId = 7\<rparr>"
    by (simp add: find_document_def example_store_def create_document_def commit_document_def
          empty_store_def)
  have run: "chat_stream silent_chat_env example_fmt (str ''hi'') (str ''s1'') 11 7 example_store =
     ([Save (fst (save_message (str ''hi'') USER (str ''s1'') 11 7 (user_stamp silent_chat_env) example_store)),
       Invoke (llm_messages example_fmt (str ''hi'') (str ''s1'') 11 7
                 (snd (save_message (str ''hi'') USER (str ''s1'') 11 7 (user_stamp silent_chat_env) example_store)))],
      snd (save_message (str ''hi'') USER (str ''s1'') 11 7 (user_stamp silent_chat_env) example_store))"
    using found
    by (simp add: chat_stream_def silent_chat_env_def split: prod.splits)
  show ?thesis
    using found
    by (simp add: run query_messages_length save_message_def session_filter_def Let_def)
qed

lemma example_store_11:
  "find_document 11 7 example_store =
      Some \<lparr>title = str ''A'', content = str ''Alice, 1 Main St'', doc_type = CONTRACT,
            status = PENDING, analysis = None, maskedContent = None, processingStartedAt = None,
            processingCompletedAt = None, errorMessage = None, userId = 7\<rparr>"
  by (simp add: find_document_def example_store_def create_document_def commit_document_def
        empty_store_def)

lemma example_store_12:
  "find_document 12 7 example_store =
      Some \<lparr>title = str ''B'', content = str ''Bob, 2 High St'', doc_type = OTHER,
            status = PENDING, analysis = None, maskedContent = None, processingStartedAt = None,
            processingCompletedAt = None, errorMessage = None, userId = 7\<rparr>"
  by (simp add: find_document_def example_store_def create_document_def commit_document_def
        empty_store_def)

lemma example_store_other_user: "find_document 11 8 example_store = None"
  by (simp add: find_document_def example_store_def create_document_def commit_document_def
        empty_store_def)



text \<open>
  C5 (as amended). The context of a document that is missing or not owned by the caller is
  the fixed string "No document found or access denied." (no error is raised). The
  context of an owned document without analysis is the instructional string
  "Document '<title>' has not been analyzed yet. Please analyze the document first to
  get detailed insights.", which is fixed except for the title of the document.
\<close>

theorem get_document_context_fails_closed:
  "(find_document document_id user_id s = None \<longrightarrow>
      get_document_context f document_id user_id s = str ''No document found or access denied.'')
   \<and> (\<forall>document. find_document document_id user_id s = Some document \<longrightarrow> analysis document = None \<longrightarrow>
        get_document_context f document_id user_id s =
          str ''Document '' @ [39] @ title document @ [39]
          @ str '' has not been analyzed yet. Please analyze the document first to get detailed insights.'')"
  by (simp add: get_document_context_def)

theorem get_document_context_fails_closed_witness:
  "find_document 11 8 example_store = None
   \<and> get_document_context example_fmt 11 8 example_store = str ''No document found or access denied.''
   \<and> find_document 11 7 example_store \<noteq> None
   \<and> analysis (the (find_document 11 7 example_store)) = None
   \<and> get_document_context example_fmt 11 7 example_store =
        str ''Document 'A' has not been analyzed yet. Please analyze the document first to get detailed insights.''"
  using get_document_context_fails_closed [of 11 8 example_store example_fmt]
        get_document_context_fails_closed [of 11 7 example_store example_fmt]
        example_store_other_user example_store_11
  by (simp add: str_def)

text \<open>
  Two owned documents without analysis and with different titles have different contexts.
\<close>

theorem not_analyzed_string_counterexample:
  "find_document 11 7 example_store \<noteq> None
   \<and> analysis (the (find_document 11 7 example_store)) = None
   \<and> find_document 12 7 example_store \<noteq> None
   \<and> analysis (the (find_document 12 7 example_store)) = None
   \<and> get_document_context example_fmt 11 7 example_store \<noteq>
       get_document_context example_fmt 12 7 example_store"
  by (simp add: get_document_context_def example_store_11 example_store_12 str_def)

text \<open>
  C10. When no document matches (document id, caller id), the stream yields exactly one
  tuple, the fixed error string without a message id, and nothing is persisted.
\<close>

theorem chat_stream_document_missing:
  assumes "find_document document_id user_id s = None"
  shows "chat_stream env f message session_id document_id user_id s =
           ([Yield (str ''Error: Document not found or access denied.'') None], s)
         \<and> yielded_chunks (fst (chat_stream env f message session_id document_id user_id s)) =
             [(str ''Error: Document not found or access denied.'', None)]
         \<and> saved_messages (fst (chat_stream env f message session_id document_id user_id s)) = []
         \<and> chat_messages (snd (chat_stream env f message session_id document_id user_id s)) =
             chat_messages s"
  using assms by (simp add: chat_stream_def)

theorem chat_stream_document_missing_witness:
  "find_document 11 8 example_store = None
   \<and> chat_stream example_chat_env example_fmt (str ''hi'') (str ''s1'') 11 8 example_store =
       ([Yield (str ''Error: Document not found or access denied.'') None], example_store)"
  using chat_stream_document_missing [OF example_store_other_user, of example_chat_env example_fmt "str ''hi''" "str ''s1''"]
        example_store_other_user
  by simp

lemma history_eq_aux:
  "foldl (\<lambda>history msg. history @ [g msg]) acc ms = acc @ map g ms"
  by (induction ms arbitrary: acc) auto

lemma get_chat_history_rows:
  "get_chat_history session_id document_id user_id s =
     sort_key createdAt
       (filter (\<lambda>m. sessionId m = Some session_id \<and> documentId m = document_id
                    \<and> msg_userId m = user_id) (chat_messages s))"
proof -
  have "session_filter session_id document_id user_id =
        (\<lambda>m. sessionId m = Some session_id \<and> documentId m = document_id \<and> msg_userId m = user_id)"
    by (rule ext) (simp add: session_filter_def)
  then show ?thesis
    by (simp add: get_chat_history_def query_messages_def map_idI)
qed

text \<open>
  C6. The history of a (session, document, caller) tuple consists of the persisted messages
  whose session, document and user are exactly those of the tuple, in ascending order of
  creation time, and its length is the number of those messages: nothing is cut off.
\<close>

theorem conversation_history_sorted_complete:
  "get_conversation_history session_id document_id user_id s =
     map (\<lambda>m. (ChatMessageRole_value (msg_role m), msg_content m))
       (get_chat_history session_id document_id user_id s)
   \<and> sorted (map createdAt (get_chat_history session_id document_id user_id s))
   \<and> mset (get_chat_history session_id document_id user_id s) =
       mset (filter (\<lambda>m. sessionId m = Some session_id \<and> documentId m = document_id
                          \<and> msg_userId m = user_id) (chat_messages s))
   \<and> length (get_conversation_history session_id document_id user_id s) =
       length (filter (\<lambda>m. sessionId m = Some session_id \<and> documentId m = document_id
                            \<and> msg_userId m = user_id) (chat_messages s))
   \<and> length (get_chat_history session_id document_id user_id s) =
       length (filter (\<lambda>m. sessionId m = Some session_id \<and> documentId m = document_id
                            \<and> msg_userId m = user_id) (chat_messages s))"
proof -
  have rows: "get_chat_history session_id document_id user_id s =
      query_messages session_id document_id user_id s"
    by (simp add: get_chat_history_def map_idI)
  have h: "get_conversation_history session_id document_id user_id s =
     map (\<lambda>m. (ChatMessageRole_value (msg_role m), msg_content m))
       (get_chat_history session_id document_id user_id s)"
    unfolding rows get_conversation_history_def by (simp add: history_eq_aux)
  show ?thesis
    unfolding h by (simp add: get_chat_history_rows)
qed

theorem conversation_history_sorted_complete_witness:
  "get_conversation_history (str ''s1'') 11 7 example_chat_store =
     [(str ''user'', str ''earlier''), (str ''assistant'', str ''later'')]
   \<and> map createdAt (get_chat_history (str ''s1'') 11 7 example_chat_store) = [3, 5]
   \<and> map msg_id (get_chat_history (str ''s1'') 11 7 example_chat_store) = [4, 0]
   \<and> length (filter (\<lambda>m. sessionId m = Some (str ''s1'') \<and> documentId m = 11 \<and> msg_userId m = 7)
        (chat_messages example_chat_store)) = 2
   \<and> length (chat_messages example_chat_store) = 5"
proof -
  have rows: "get_chat_history (str ''s1'') 11 7 example_chat_store =
      [\<lparr>msg_id = 4, msg_content = str ''earlier'', msg_role = USER, sessionId = Some (str ''s1''),
          message_metadata = 3, msg_userId = 7, documentId = 11, createdAt = 3\<rparr>,
       \<lparr>msg_id = 0, msg_content = str ''later'', msg_role = ASSISTANT, sessionId = Some (str ''s1''),
          message_metadata = 5, msg_userId = 7, documentId = 11, createdAt = 5\<rparr>]"
    by (simp add: get_chat_history_def query_messages_def session_filter_def
          example_chat_store_def str_def)
  have n: "length (chat_messages example_chat_store) = 5"
    by (simp add: example_chat_store_def)
  show ?thesis
    using conversation_history_sorted_complete [of "str ''s1''" 11 7 example_chat_store] n
    by (simp add: rows)
qed

lemma find_document_SomeD:
  "find_document document_id user_id s = Some d \<Longrightarrow> documents s document_id = Some d \<and> userId d = user_id"
  by (auto simp: find_document_def split: option.splits if_splits)

lemma store_consistent_commit:
  "store_consistent s \<Longrightarrow> analysis_consistent d \<Longrightarrow> store_consistent (commit_document k d s)"
  by (auto simp: store_consistent_def commit_document_def)

lemma validated_Inr: "validated env r = Inr r' \<Longrightarrow> r' = r \<and> in_range r"
  by (auto simp: validated_def split: if_splits)

lemma validated_in_range: "in_range r \<Longrightarrow> validated env r = Inr r"
  by (simp add: validated_def)

lemma ainvoke_Inr: "ainvoke env inputs = Inr r \<Longrightarrow> in_range r"
  by (auto simp: ainvoke_def dest: validated_Inr split: sum.splits)

lemma mark_processing_consistent:
  "analysis_consistent d \<Longrightarrow> \<not> (status d = COMPLETED \<and> analysis d \<noteq> None) \<Longrightarrow>
   analysis_consistent (mark_processing env d) \<and> analysis (mark_processing env d) = None"
  by (auto simp: analysis_consistent_def mark_processing_def split: option.splits)

lemma mark_failed_consistent:
  "analysis d = None \<Longrightarrow> analysis_consistent (mark_failed env e d)"
  by (simp add: analysis_consistent_def mark_failed_def)

lemma mark_completed_consistent:
  "in_range a \<Longrightarrow> analysis_consistent (mark_completed env a d)"
  by (simp add: analysis_consistent_def mark_completed_def)

lemma analysis_in_progress_consistent:
  "store_consistent s \<Longrightarrow> store_consistent (analysis_in_progress env document_id user_id s)"
proof -
  assume ok: "store_consistent s"
  show ?thesis
  proof (cases "find_document document_id user_id s")
    case None
    then show ?thesis using ok by (simp add: analysis_in_progress_def)
  next
    case (Some d)
    then have "analysis_consistent d"
      using ok find_document_SomeD [OF Some] by (auto simp: store_consistent_def)
    then show ?thesis
      using ok Some
      by (auto simp: analysis_in_progress_def intro!: store_consistent_commit
            dest: mark_processing_consistent)
  qed
qed

lemma analyze_document_cases:
  assumes "find_document document_id user_id s = Some d"
      and "\<not> (status d = COMPLETED \<and> analysis d \<noteq> None)"
  shows "(\<exists>e. ainvoke env (analysis_inputs (mark_processing env d)) = Inl e
            \<and> analyze_document env document_id user_id s =
                (Inr (fst (analysis_failed env document_id (mark_processing env d) e
                             (commit_document document_id (mark_processing env d) s))),
                 commit_document document_id (mark_failed env e (mark_processing env d))
                   (commit_document document_id (mark_processing env d) s),
                 [analysis_inputs (mark_processing env d)]))
       \<or> (\<exists>r a. ainvoke env (analysis_inputs (mark_processing env d)) = Inr r \<and> in_range a
            \<and> AnalysisResult.truncate a = r \<and> analyzed_at a = t_analyzed env
            \<and> analyze_document env document_id user_id s =
                (Inr \<lparr>r_document_id = document_id, r_status = COMPLETED, r_analysis = Some a,
                      r_processing_started_at = Some (t_started env),
                      r_processing_completed_at = Some (t_completed env),
                      r_error_message = None\<rparr>,
                 commit_document document_id (mark_completed env a (mark_processing env d))
                   (commit_document document_id (mark_processing env d) s),
                 [analysis_inputs (mark_processing env d)]))"
proof (cases "ainvoke env (analysis_inputs (mark_processing env d))")
  case (Inl e)
  then show ?thesis
    using assms
    by (auto simp: analyze_document_def Let_def analysis_failed_def split: prod.splits)
next
  case (Inr r)
  then have rng: "in_range r" by (rule ainvoke_Inr)
  let ?a = "\<lparr>summary = summary r, hidden_clauses = hidden_clauses r,
              risk_assessment = risk_assessment r, loopholes = loopholes r,
              red_flags = red_flags r, risk_score = risk_score r,
              confidence_rating = confidence_rating r,
              key_concerns = key_concerns r, analyzed_at = t_analyzed env\<rparr>"
  have a: "in_range ?a" using rng by (simp add: in_range_def)
  have v: "validated env ?a = Inr ?a" using a by (rule validated_in_range)
  have t: "AnalysisResult.truncate ?a = r" by (simp add: AnalysisResult.truncate_def)
  have run: "analyze_document env document_id user_id s =
                (Inr \<lparr>r_document_id = document_id, r_status = COMPLETED, r_analysis = Some ?a,
                      r_processing_started_at = Some (t_started env),
                      r_processing_completed_at = Some (t_completed env),
                      r_error_message = None\<rparr>,
                 commit_document document_id (mark_completed env ?a (mark_processing env d))
                   (commit_document document_id (mark_processing env d) s),
                 [analysis_inputs (mark_processing env d)])"
    using assms Inr v
    by (auto simp: analyze_document_def Let_def mark_completed_def mark_processing_def)
  show ?thesis
    using Inr a t run by (intro disjI2 exI [of _ r] exI [of _ ?a]) simp
qed

lemma analyze_document_short_circuit:
  assumes "find_document document_id user_id s = Some d"
      and "status d = COMPLETED" and "analysis d = Some a" and "in_range a"
  shows "analyze_document env document_id user_id s =
           (Inr \<lparr>r_document_id = document_id, r_status = COMPLETED, r_analysis = Some a,
                 r_processing_started_at = processingStartedAt d,
                 r_processing_completed_at = processingCompletedAt d,
                 r_error_message = None\<rparr>, s, [])"
  using assms by (simp add: analyze_document_def validated_in_range)

lemma analyze_document_store_unchanged:
  assumes "find_document document_id user_id s = None
           \<or> (\<exists>d. find_document document_id user_id s = Some d \<and> status d = COMPLETED \<and> analysis d \<noteq> None)"
  shows "fst (snd (analyze_document env document_id user_id s)) = s"
  using assms by (auto simp: analyze_document_def split: sum.splits)

lemma analyze_document_consistent:
  assumes ok: "store_consistent s"
  shows "store_consistent (fst (snd (analyze_document env document_id user_id s)))"
proof (cases "find_document document_id user_id s")
  case None
  then show ?thesis using ok analyze_document_store_unchanged [of document_id user_id s env] by simp
next
  case (Some d)
  have d: "analysis_consistent d"
    using ok find_document_SomeD [OF Some] by (auto simp: store_consistent_def)
  show ?thesis
  proof (cases "status d = COMPLETED \<and> analysis d \<noteq> None")
    case True
    then show ?thesis
      using ok Some analyze_document_store_unchanged [of document_id user_id s env] by simp
  next
    case False
    note mp = mark_processing_consistent [OF d False, of env]
    have s1: "store_consistent (commit_document document_id (mark_processing env d) s)"
      using ok mp by (simp add: store_consistent_commit)
    from analyze_document_cases [OF Some False, of env]
    show ?thesis
    proof (elim disjE exE conjE)
      fix e
      assume "analyze_document env document_id user_id s =
                (Inr (fst (analysis_failed env document_id (mark_processing env d) e
                             (commit_document document_id (mark_processing env d) s))),
                 commit_document document_id (mark_failed env e (mark_processing env d))
                   (commit_document document_id (mark_processing env d) s),
                 [analysis_inputs (mark_processing env d)])"
      then show ?thesis
        using s1 mp by (simp add: store_consistent_commit mark_failed_consistent)
    next
      fix r a
      assume "in_range a"
        and "analyze_document env document_id user_id s =
                (Inr \<lparr>r_document_id = document_id, r_status = COMPLETED, r_analysis = Some a,
                      r_processing_started_at = Some (t_started env),
                      r_processing_completed_at = Some (t_completed env),
                      r_error_message = None\<rparr>,
                 commit_document document_id (mark_completed env a (mark_processing env d))
                   (commit_document document_id (mark_processing env d) s),
                 [analysis_inputs (mark_processing env d)])"
      then show ?thesis
        using s1 by (simp add: store_consistent_commit mark_completed_consistent)
    qed
  qed
qed

lemma mask_document_content_consistent:
  assumes ok: "store_consistent s"
  shows "store_consistent (snd (mask_document_content menv document_id user_id s))"
proof (cases "find_document document_id user_id s")
  case None
  then show ?thesis using ok by (simp add: mask_document_content_def)
next
  case (Some d)
  have d: "analysis_consistent d"
    using ok find_document_SomeD [OF Some] by (auto simp: store_consistent_def)
  then have "analysis_consistent (d\<lparr>maskedContent := Some m\<rparr>)" for m
    by (simp add: analysis_consistent_def split: option.splits)
  then show ?thesis
    using ok Some
    by (auto simp: mask_document_content_def Let_def split: sum.splits
          intro!: store_consistent_commit)
qed

lemma chat_stream_documents:
  "documents (snd (chat_stream cenv f message session_id document_id user_id s)) = documents s"
  by (auto simp: chat_stream_def save_message_def Let_def split: option.splits prod.splits)

lemma reachable_consistent: "reachable s \<Longrightarrow> store_consistent s"
proof (induction rule: reachable.induct)
  case empty
  then show ?case by (simp add: store_consistent_def empty_store_def)
next
  case (create s new_id title' content' type' user_id)
  then show ?case
    by (auto simp: create_document_def analysis_consistent_def intro!: store_consistent_commit)
next
  case (analyze s env document_id user_id)
  then show ?case by (simp add: analyze_document_consistent)
next
  case (in_progress s env document_id user_id)
  then show ?case by (simp add: analysis_in_progress_consistent)
next
  case (mask s menv document_id user_id)
  then show ?case by (simp add: mask_document_content_consistent)
next
  case (delete s document_id user_id)
  then show ?case
    by (auto simp: delete_document_def store_consistent_def split: option.splits if_splits)
next
  case (chat s cenv f message session_id document_id user_id)
  then show ?case by (simp add: store_consistent_def chat_stream_documents)
qed

lemma analysis_inputs_mark_processing:
  "analysis_inputs (mark_processing env d) = analysis_inputs d"
  by (simp add: analysis_inputs_def mark_processing_def)

lemma find_document_commit:
  "userId d = user_id \<Longrightarrow> find_document k user_id (commit_document k d s) = Some d"
  by (simp add: find_document_def commit_document_def)

lemma documents_commit: "documents (commit_document k d s) k = Some d"
  by (simp add: commit_document_def)

lemma analyze_document_step:
  assumes ok: "store_consistent s" and doc: "documents s k = Some d"
      and after: "documents (fst (snd (analyze_document env k user_id s))) k = Some d'"
  shows "d' = d \<or> (status d' = FAILED \<and> analysis d' = analysis d)
         \<or> (status d' = COMPLETED \<and> (\<exists>a. analysis d' = Some a \<and> in_range a))"
proof (cases "find_document k user_id s")
  case None
  then show ?thesis
    using doc after analyze_document_store_unchanged [of k user_id s env] by simp
next
  case (Some d0)
  then have d0: "d0 = d" using doc find_document_SomeD [OF Some] by simp
  show ?thesis
  proof (cases "status d = COMPLETED \<and> analysis d \<noteq> None")
    case True
    then show ?thesis
      using Some d0 doc after analyze_document_store_unchanged [of k user_id s env] by simp
  next
    case False
    from analyze_document_cases [OF Some [unfolded d0] False, of env]
    show ?thesis
      using after
      by (auto simp: documents_commit mark_failed_def mark_completed_def mark_processing_def)
  qed
qed

text \<open>
  C2. In every store reachable through the operations, a document is COMPLETED if and only
  if it has an analysis within the ranges (risk score in [1,5], confidence in [0,100]);
  no analysis outside the ranges is ever stored. An analysis request changes the
  analysis of a document only together with the status COMPLETED, and leaves it
  untouched when the document ends up FAILED.
\<close>

theorem completed_iff_valid_analysis:
  assumes "reachable s" and "documents s k = Some d"
  shows "(status d = COMPLETED \<longleftrightarrow> (\<exists>a. analysis d = Some a \<and> in_range a))
       \<and> (\<forall>a. analysis d = Some a \<longrightarrow> in_range a \<and> status d = COMPLETED)
       \<and> (\<forall>env user_id d'.
             documents (fst (snd (analyze_document env k user_id s))) k = Some d' \<longrightarrow>
               (analysis d' = analysis d
                \<or> (status d' = COMPLETED \<and> (\<exists>a. analysis d' = Some a \<and> in_range a)))
               \<and> (status d' = FAILED \<longrightarrow> analysis d' = analysis d))"
proof -
  have ok: "store_consistent s" using assms(1) by (rule reachable_consistent)
  then have d: "analysis_consistent d" using assms(2) by (auto simp: store_consistent_def)
  have state: "(status d = COMPLETED \<longleftrightarrow> (\<exists>a. analysis d = Some a \<and> in_range a))
       \<and> (\<forall>a. analysis d = Some a \<longrightarrow> in_range a \<and> status d = COMPLETED)"
    using d by (auto simp: analysis_consistent_def split: option.splits)
  have step: "(analysis d' = analysis d
                \<or> (status d' = COMPLETED \<and> (\<exists>a. analysis d' = Some a \<and> in_range a)))
               \<and> (status d' = FAILED \<longrightarrow> analysis d' = analysis d)"
    if "documents (fst (snd (analyze_document env k user_id s))) k = Some d'" for env user_id d'
    using analyze_document_step [OF ok assms(2) that] by auto
  show ?thesis using state step by blast
qed

lemma reachable_example_store: "reachable example_store"
  unfolding example_store_def
  by (intro reachable.create reachable.empty)
     (simp_all add: create_document_def commit_document_def empty_store_def)

lemma reachable_analyzed_store: "reachable analyzed_store"
  unfolding analyzed_store_def by (intro reachable.analyze reachable_example_store)

lemma analyzed_store_11:
  "find_document 11 7 analyzed_store =
     Some \<lparr>title = str ''A'', content = str ''Alice, 1 Main St'', doc_type = CONTRACT,
           status = COMPLETED,
           analysis = Some \<lparr>summary = str ''Terms'', hidden_clauses = [str ''Auto-renewal''],
                              risk_assessment = str ''Moderate'', loopholes = [], red_flags = [],
                              risk_score = 2, confidence_rating = 90, key_concerns = [],
                              analyzed_at = 21\<rparr>,
           maskedContent = None, processingStartedAt = Some 20,
           processingCompletedAt = Some 22, errorMessage = None, userId = 7\<rparr>"
  unfolding analyzed_store_def
  using example_store_11
  by (simp add: analyze_document_def Let_def example_analysis_env_def ainvoke_def validated_def
        in_range_def mark_processing_def mark_completed_def find_document_def commit_document_def)

theorem completed_iff_valid_analysis_witness:
  "reachable analyzed_store
   \<and> documents analyzed_store 11 \<noteq> None
   \<and> status (the (documents analyzed_store 11)) = COMPLETED
   \<and> (\<exists>a. analysis (the (documents analyzed_store 11)) = Some a \<and> in_range a)"
proof -
  obtain d where d: "documents analyzed_store 11 = Some d" and st: "status d = COMPLETED"
    using find_document_SomeD [OF analyzed_store_11] by auto
  show ?thesis
    using reachable_analyzed_store d st
      completed_iff_valid_analysis [OF reachable_analyzed_store d]
    by simp
qed

text \<open>
  C3. For a document that is COMPLETED and has an analysis, \<open>analyze_document\<close> returns
  the stored analysis unchanged, leaves the store as it is and makes no call to the
  inference provider; a second call returns the same again, whatever the provider would
  have answered.
\<close>

theorem analyze_document_idempotent:
  assumes "reachable s" and "find_document document_id user_id s = Some d"
      and "status d = COMPLETED" and "analysis d = Some a"
  shows "analyze_document env document_id user_id s =
           (Inr \<lparr>r_document_id = document_id, r_status = COMPLETED, r_analysis = Some a,
                 r_processing_started_at = processingStartedAt d,
                 r_processing_completed_at = processingCompletedAt d,
                 r_error_message = None\<rparr>, s, [])
       \<and> analyze_document env' document_id user_id
           (fst (snd (analyze_document env document_id user_id s))) =
           analyze_document env document_id user_id s"
proof -
  have "store_consistent s" using assms(1) by (rule reachable_consistent)
  then have "analysis_consistent d"
    using find_document_SomeD [OF assms(2)] by (auto simp: store_consistent_def)
  then have rng: "in_range a" using assms(4) by (simp add: analysis_consistent_def)
  show ?thesis
    using analyze_document_short_circuit [OF assms(2) assms(3) assms(4) rng, of env]
          analyze_document_short_circuit [OF assms(2) assms(3) assms(4) rng, of env']
    by simp
qed

theorem analyze_document_idempotent_witness:
  "reachable analyzed_store
   \<and> find_document 11 7 analyzed_store \<noteq> None
   \<and> status (the (find_document 11 7 analyzed_store)) = COMPLETED
   \<and> analysis (the (find_document 11 7 analyzed_store)) \<noteq> None
   \<and> fst (analyze_document malformed_analysis_env 11 7 analyzed_store) =
       Inr \<lparr>r_document_id = 11, r_status = COMPLETED,
             r_analysis = analysis (the (find_document 11 7 analyzed_store)),
             r_processing_started_at = Some 20, r_processing_completed_at = Some 22,
             r_error_message = None\<rparr>
   \<and> fst (snd (analyze_document malformed_analysis_env 11 7 analyzed_store)) = analyzed_store
   \<and> snd (snd (analyze_document malformed_analysis_env 11 7 analyzed_store)) = []"
  using reachable_analyzed_store analyzed_store_11
    analyze_document_idempotent [OF reachable_analyzed_store analyzed_store_11,
      of _ malformed_analysis_env malformed_analysis_env]
  by simp

text \<open>
  C4 (as amended). When the analysis attempt on an existing, caller-owned document raises
  an exception, \<open>analyze_document\<close> does not propagate it: it returns a response with
  status FAILED that carries the message of the error, and the stored document has
  status FAILED, \<open>errorMessage\<close> equal to the message of the error (whatever that message
  is), \<open>processingCompletedAt\<close> stamped and no analysis.
\<close>

theorem analyze_document_failure_recorded:
  assumes "reachable s" and "find_document document_id user_id s = Some d"
      and "\<not> (status d = COMPLETED \<and> analysis d \<noteq> None)"
      and "ainvoke env (analysis_inputs d) = Inl e"
  shows "\<exists>s' d'. analyze_document env document_id user_id s =
                   (Inr \<lparr>r_document_id = document_id, r_status = FAILED, r_analysis = None,
                         r_processing_started_at = Some (t_started env),
                         r_processing_completed_at = Some (t_completed env),
                         r_error_message = Some e\<rparr>, s', [analysis_inputs d])
           \<and> find_document document_id user_id s' = Some d'
           \<and> status d' = FAILED \<and> errorMessage d' = Some e
           \<and> processingCompletedAt d' = Some (t_completed env)
           \<and> analysis d' = None \<and> analysis d = None"
proof -
  have "store_consistent s" using assms(1) by (rule reachable_consistent)
  then have "analysis_consistent d"
    using find_document_SomeD [OF assms(2)] by (auto simp: store_consistent_def)
  then have none: "analysis d = None"
    using assms(3) by (auto simp: analysis_consistent_def split: option.splits)
  have uid: "userId d = user_id" using find_document_SomeD [OF assms(2)] by simp
  let ?d' = "mark_failed env e (mark_processing env d)"
  let ?s' = "commit_document document_id ?d' (commit_document document_id (mark_processing env d) s)"
  have inv: "ainvoke env (analysis_inputs (mark_processing env d)) = Inl e"
    using assms(4) by (simp add: analysis_inputs_mark_processing)
  from analyze_document_cases [OF assms(2) assms(3), of env] inv
  have "analyze_document env document_id user_id s =
                (Inr (fst (analysis_failed env document_id (mark_processing env d) e
                             (commit_document document_id (mark_processing env d) s))),
                 ?s', [analysis_inputs (mark_processing env d)])"
    by auto
  then have "analyze_document env document_id user_id s =
                (Inr (fst (analysis_failed env document_id (mark_processing env d) e
                             (commit_document document_id (mark_processing env d) s))),
                 ?s', [analysis_inputs d])"
    by (simp only: analysis_inputs_mark_processing)
  then have run: "analyze_document env document_id user_id s =
                   (Inr \<lparr>r_document_id = document_id, r_status = FAILED, r_analysis = None,
                         r_processing_started_at = Some (t_started env),
                         r_processing_completed_at = Some (t_completed env),
                         r_error_message = Some e\<rparr>, ?s', [analysis_inputs d])"
    by (simp add: analysis_failed_def Let_def mark_failed_def mark_processing_def)
  have found: "find_document document_id user_id ?s' = Some ?d'"
    using uid by (simp add: find_document_commit mark_failed_def mark_processing_def)
  have fields: "status ?d' = FAILED \<and> errorMessage ?d' = Some e
           \<and> processingCompletedAt ?d' = Some (t_completed env) \<and> analysis ?d' = None"
    using none by (simp add: mark_failed_def mark_processing_def)
  show ?thesis
    using run found fields none by blast
qed

theorem analyze_document_failure_recorded_witness:
  "reachable example_store
   \<and> find_document 11 7 example_store \<noteq> None
   \<and> status (the (find_document 11 7 example_store)) \<noteq> COMPLETED
   \<and> ainvoke malformed_analysis_env (analysis_inputs (the (find_document 11 7 example_store))) =
       Inl (str ''Input should be in range'')
   \<and> fst (analyze_document malformed_analysis_env 11 7 example_store) =
       Inr \<lparr>r_document_id = 11, r_status = FAILED, r_analysis = None,
             r_processing_started_at = Some 30, r_processing_completed_at = Some 32,
             r_error_message = Some (str ''Input should be in range'')\<rparr>
   \<and> errorMessage (the (find_document 11 7
        (fst (snd (analyze_document malformed_analysis_env 11 7 example_store))))) =
       Some (str ''Input should be in range'')"
proof -
  let ?d = "\<lparr>title = str ''A'', content = str ''Alice, 1 Main St'', doc_type = CONTRACT,
            status = PENDING, analysis = None, maskedContent = None, processingStartedAt = None,
            processingCompletedAt = None, errorMessage = None, userId = 7\<rparr>"
  have st: "\<not> (status ?d = COMPLETED \<and> analysis ?d \<noteq> None)"
    by simp
  have inv: "ainvoke malformed_analysis_env (analysis_inputs ?d) =
       Inl (str ''Input should be in range'')"
    by (simp add: ainvoke_def malformed_analysis_env_def validated_def in_range_def)
  have t: "t_started malformed_analysis_env = 30" "t_completed malformed_analysis_env = 32"
    by (simp_all add: malformed_analysis_env_def)
  from analyze_document_failure_recorded [OF reachable_example_store example_store_11 st inv]
  obtain s' d' where
    "analyze_document malformed_analysis_env 11 7 example_store =
       (Inr \<lparr>r_document_id = 11, r_status = FAILED, r_analysis = None,
              r_processing_started_at = Some 30, r_processing_completed_at = Some 32,
              r_error_message = Some (str ''Input should be in range'')\<rparr>, s', [analysis_inputs ?d])"
    and "find_document 11 7 s' = Some d'"
    and "errorMessage d' = Some (str ''Input should be in range'')"
    unfolding t by blast
  then show ?thesis
    using reachable_example_store example_store_11 inv by simp
qed

text \<open>
  An exception whose message is the empty string leaves an empty \<open>errorMessage\<close>.
\<close>

theorem error_message_nonempty_counterexample:
  "find_document 11 7 example_store \<noteq> None
   \<and> status (the (find_document 11 7 example_store)) \<noteq> COMPLETED
   \<and> ainvoke silent_error_env (analysis_inputs (the (find_document 11 7 example_store))) = Inl []
   \<and> status (the (find_document 11 7
        (fst (snd (analyze_document silent_error_env 11 7 example_store))))) = FAILED
   \<and> errorMessage (the (find_document 11 7
        (fst (snd (analyze_document silent_error_env 11 7 example_store))))) = Some []"
  using example_store_11
  by (simp add: analyze_document_def Let_def analysis_failed_def ainvoke_def silent_error_env_def
        mark_failed_def mark_processing_def find_document_def commit_document_def)

lemma py_isspace_whitespace: "py_isspace c \<longleftrightarrow> c \<in> set python_whitespace"
  unfolding py_isspace_def python_whitespace_def by (simp only: set_simps insert_iff empty_iff) arith

lemma dropWhile_keeps_last:
  "ys \<noteq> [] \<Longrightarrow> \<not> P (last ys) \<Longrightarrow> dropWhile P ys \<noteq> [] \<and> last (dropWhile P ys) = last ys"
  by (induction ys) auto

lemma strip_either_order:
  "rev (dropWhile P (rev (dropWhile P s))) = dropWhile P (rev (dropWhile P (rev s)))"
proof (cases "dropWhile P s = []")
  case True
  then have "\<forall>x\<in>set s. P x" by simp
  then have r: "dropWhile P (rev s) = []" by simp
  show ?thesis unfolding True r by simp
next
  case False
  define A where "A = takeWhile P s"
  define t where "t = dropWhile P s"
  have s: "s = A @ t" by (simp add: A_def t_def)
  have t: "t \<noteq> []" using False by (simp add: t_def)
  have hd_t: "\<not> P (hd t)" using False unfolding t_def by (rule hd_dropWhile)
  have A: "\<And>x. x \<in> set A \<Longrightarrow> P x" unfolding A_def by (meson set_takeWhileD)
  have last_rev: "last (rev t) = hd t" using t by (simp add: last_rev)
  have keep: "dropWhile P (rev t) \<noteq> [] \<and> last (dropWhile P (rev t)) = hd t"
    using dropWhile_keeps_last [of "rev t" P] t hd_t last_rev by simp
  have ex: "hd t \<in> set (rev t)" using t by simp
  have "dropWhile P (rev s) = dropWhile P (rev t) @ rev A"
    unfolding s using ex hd_t by simp
  then have "rev (dropWhile P (rev s)) = A @ rev (dropWhile P (rev t))" by simp
  then have "dropWhile P (rev (dropWhile P (rev s))) = dropWhile P (rev (dropWhile P (rev t)))"
    using A by simp
  also have "\<dots> = rev (dropWhile P (rev t))"
    using keep hd_t by (simp add: dropWhile_eq_self_iff hd_rev)
  finally show ?thesis by (simp add: t_def)
qed

lemma py_strip_spec: "py_strip s = spec_strip s"
proof -
  have "py_isspace = (\<lambda>c. c \<in> set python_whitespace)"
    by (rule ext) (rule py_isspace_whitespace)
  then show ?thesis
    by (simp add: py_strip_def spec_strip_def strip_either_order)
qed

lemma py_split_nonempty: "py_split s sep \<noteq> []"
  by (induction s) (auto split: list.splits)

lemma spec_lines_Cons:
  "spec_lines (c # cs) =
     (if c = 10 then [] # spec_lines cs else (c # hd (spec_lines cs)) # tl (spec_lines cs))"
  by (simp add: spec_lines_def)

lemma py_split_spec: "py_split s 10 = spec_lines s"
proof (induction s)
  case Nil
  then show ?case by (simp add: spec_lines_def)
next
  case (Cons c cs)
  obtain l ls where "py_split cs 10 = l # ls"
    using py_split_nonempty [of cs 10] by (cases "py_split cs 10") auto
  then show ?case
    using Cons.IH by (simp add: spec_lines_Cons)
qed

lemma py_startswith_prefix: "py_startswith s p \<longleftrightarrow> prefix p s"
  unfolding py_startswith_def prefix_def
  by (metis append_eq_conv_conj append_take_drop_id)

lemma py_startswith_any_spec: "py_startswith_any line preamble_prefixes \<longleftrightarrow> spec_preamble line"
  by (simp add: py_startswith_any_def preamble_prefixes_def spec_preamble_def py_startswith_prefix)

lemma py_join_spec: "py_join (str '' '') ls = spec_join_spaces ls"
proof (induction "str '' ''" ls rule: py_join.induct)
  case 1
  then show ?case by (simp add: spec_join_spaces_def)
next
  case (2 x)
  then show ?case by (simp add: spec_join_spaces_def)
next
  case (3 x y ys)
  then show ?case by (simp add: spec_join_spaces_def str_def)
qed

lemma keep_lines_eq:
  "keep_lines lines acc =
     acc @ filter (\<lambda>line. \<not> (line = [] \<or> spec_preamble line)) (map spec_strip lines)"
  by (induction lines arbitrary: acc) (auto simp: Let_def py_strip_spec py_startswith_any_spec)

lemma clean_response_spec: "clean_response text' = spec_clean_response text'"
  by (simp add: clean_response_def spec_clean_response_def keep_lines_eq Let_def
        py_split_spec py_join_spec py_strip_spec)

lemma py_contains_sublist: "py_contains p s \<longleftrightarrow> sublist p s"
  by (induction s) (auto simp: sublist_Cons_right py_startswith_prefix)

lemma py_find_at:
  "(\<forall>j<length pre. take (length p) (drop j (pre @ p @ post)) \<noteq> p) \<Longrightarrow>
   py_find (pre @ p @ post) p = int (length pre)"
proof (induction pre)
  case Nil
  have "py_startswith (p @ post) p" by (simp add: py_startswith_def)
  then show ?case by (cases "p @ post") auto
next
  case (Cons c pre)
  have "\<not> py_startswith ((c # pre) @ p @ post) p"
    using Cons.prems [rule_format, of 0] by (simp add: py_startswith_def)
  moreover have "\<forall>j<length pre. take (length p) (drop j (pre @ p @ post)) \<noteq> p"
  proof (intro allI impI)
    fix j assume "j < length pre"
    then show "take (length p) (drop j (pre @ p @ post)) \<noteq> p"
      using Cons.prems [rule_format, of "Suc j"] by simp
  qed
  ultimately show ?case using Cons.IH by (simp add: Let_def)
qed

lemma skip_thinking_after:
  assumes "sublist (str ''<think>'') raw" and "raw = pre @ str ''</think>'' @ post"
      and "\<forall>j<length pre. take 8 (drop j raw) \<noteq> str ''</think>''"
  shows "skip_thinking raw = spec_strip post"
proof -
  have len: "length (str ''</think>'') = 8" by (simp add: str_def)
  have found: "py_find raw (str ''</think>'') = int (length pre)"
    unfolding assms(2) using assms(3) [unfolded assms(2)] by (intro py_find_at) (simp add: len)
  have "sublist (str ''</think>'') raw" unfolding assms(2) by (auto simp: sublist_def)
  then have both: "py_contains (str ''<think>'') raw \<and> py_contains (str ''</think>'') raw"
    using assms(1) by (simp add: py_contains_sublist)
  have "py_slice_from raw (py_find raw (str ''</think>'') + 8) = post"
    unfolding found py_slice_from_def
    by (subst assms(2)) (simp add: nat_add_distrib len)
  then show ?thesis
    using both found by (simp add: skip_thinking_def Let_def py_strip_spec)
qed

lemma skip_thinking_absent:
  "\<not> (sublist (str ''<think>'') raw \<and> sublist (str ''</think>'') raw) \<Longrightarrow>
   skip_thinking raw = raw"
  by (auto simp: skip_thinking_def py_contains_sublist)

lemma first_occurrence:
  "sublist p s \<Longrightarrow>
   \<exists>pre post. s = pre @ p @ post \<and> (\<forall>j<length pre. take (length p) (drop j s) \<noteq> p)"
proof (induction s)
  case Nil
  then show ?case by simp
next
  case (Cons c cs)
  show ?case
  proof (cases "prefix p (c # cs)")
    case True
    then obtain post where "c # cs = [] @ p @ post" by (auto simp: prefix_def)
    then show ?thesis by (intro exI [of _ "[]"] exI [of _ post]) simp
  next
    case False
    then have "sublist p cs" using Cons.prems by (simp add: sublist_Cons_right)
    then obtain pre post where cs: "cs = pre @ p @ post"
      and first: "\<forall>j<length pre. take (length p) (drop j cs) \<noteq> p"
      using Cons.IH by blast
    have "\<forall>j<length (c # pre). take (length p) (drop j (c # cs)) \<noteq> p"
    proof (intro allI impI)
      fix j assume j: "j < length (c # pre)"
      show "take (length p) (drop j (c # cs)) \<noteq> p"
      proof (cases j)
        case 0
        then show ?thesis
          using False by (metis drop0 take_is_prefix)
      next
        case (Suc j')
        then show ?thesis using first j by simp
      qed
    qed
    then show ?thesis
      using cs by (intro exI [of _ "c # pre"] exI [of _ post]) simp
  qed
qed

lemma all_less_list_all: "(\<forall>j<n. P j) \<longleftrightarrow> list_all P [0..<n]"
  by (auto simp: list_all_iff)

text \<open>
  C9 (as amended). The masking step cleans the provider's reply as follows. If the reply
  contains both "<think>" and "</think>", the output is computed only from the text
  after the first "</think>", stripped; otherwise from the whole reply. Every line of
  that text is stripped of its leading and trailing whitespace; the stripped lines that
  are empty or begin with "Here", "The", "I've" or "This" are discarded and the
  surviving stripped lines are joined with single spaces; if no line survives, the
  stripped text is returned.
\<close>

theorem mask_pii_cleans_reply:
  assumes "ollama env (masking_prompt text') = Inr raw"
  shows "(\<forall>pre post.
            sublist (str ''<think>'') raw \<and> raw = pre @ str ''</think>'' @ post
            \<and> (\<forall>j<length pre. take 8 (drop j raw) \<noteq> str ''</think>'') \<longrightarrow>
            mask_pii env text' = Inr (spec_clean_response (spec_strip post)))
       \<and> (sublist (str ''<think>'') raw \<and> sublist (str ''</think>'') raw \<longrightarrow>
            (\<exists>pre post. raw = pre @ str ''</think>'' @ post
               \<and> (\<forall>j<length pre. take 8 (drop j raw) \<noteq> str ''</think>'')))
       \<and> (\<not> (sublist (str ''<think>'') raw \<and> sublist (str ''</think>'') raw) \<longrightarrow>
            mask_pii env text' = Inr (spec_clean_response raw))"
proof -
  have run: "mask_pii env text' = Inr (spec_clean_response (skip_thinking raw))"
    using assms by (simp add: mask_pii_def clean_response_spec)
  have len: "length (str ''</think>'') = 8" by (simp add: str_def)
  have after: "mask_pii env text' = Inr (spec_clean_response (spec_strip post))"
    if "sublist (str ''<think>'') raw" and "raw = pre @ str ''</think>'' @ post"
      and "\<forall>j<length pre. take 8 (drop j raw) \<noteq> str ''</think>''" for pre post
    using run skip_thinking_after [OF that] by simp
  have exist: "\<exists>pre post. raw = pre @ str ''</think>'' @ post
               \<and> (\<forall>j<length pre. take 8 (drop j raw) \<noteq> str ''</think>'')"
    if "sublist (str ''</think>'') raw"
    using first_occurrence [OF that] by (simp add: len)
  have absent: "mask_pii env text' = Inr (spec_clean_response raw)"
    if "\<not> (sublist (str ''<think>'') raw \<and> sublist (str ''</think>'') raw)"
    using run skip_thinking_absent [OF that] by simp
  show ?thesis using after exist absent by blast
qed

theorem mask_pii_cleans_reply_witness:
  "ollama thinking_masking_env (masking_prompt (str ''Alice, 1 Main St'')) = Inr thinking_reply
   \<and> sublist (str ''<think>'') thinking_reply
   \<and> mask_pii thinking_masking_env (str ''Alice, 1 Main St'') = Inr (str ''[NAME] lives at [ADDRESS]'')
   \<and> ollama preamble_masking_env (masking_prompt (str ''Alice, 1 Main St'')) = Inr preamble_reply
   \<and> \<not> sublist (str ''<think>'') preamble_reply
   \<and> mask_pii preamble_masking_env (str ''Alice, 1 Main St'') = Inr (str ''The x'')"
proof -
  let ?pre = "str ''<think>plan''"
  let ?post = "nl @ str '' Here is the text:'' @ nl
     @ str ''The result'' @ nl @ str ''I've masked it'' @ nl @ str ''This is it'' @ nl @ nl
     @ str ''  [NAME] lives  '' @ nl @ str ''at [ADDRESS]''"
  have reply: "ollama thinking_masking_env (masking_prompt (str ''Alice, 1 Main St'')) =
      Inr thinking_reply"
    by (simp add: thinking_masking_env_def)
  have tag: "sublist (str ''<think>'') thinking_reply"
    by (simp add: thinking_reply_def str_def nl_def sublist_Cons_right)
  have split: "thinking_reply = ?pre @ str ''</think>'' @ ?post"
    by (simp add: thinking_reply_def str_def)
  have first: "\<forall>j<length ?pre. take 8 (drop j thinking_reply) \<noteq> str ''</think>''"
    by (simp add: thinking_reply_def str_def nl_def all_less_list_all upt_rec)
  have out: "spec_clean_response (spec_strip ?post) = str ''[NAME] lives at [ADDRESS]''"
    unfolding clean_response_spec [symmetric] py_strip_spec [symmetric]
    by (simp add: clean_response_def str_def nl_def py_startswith_def py_strip_def
          py_isspace_def Let_def py_startswith_any_def preamble_prefixes_def)
  have reply': "ollama preamble_masking_env (masking_prompt (str ''Alice, 1 Main St'')) =
      Inr preamble_reply"
    by (simp add: preamble_masking_env_def)
  have no_tag: "\<not> sublist (str ''<think>'') preamble_reply"
    by (simp add: preamble_reply_def str_def sublist_Cons_right)
  have out': "spec_clean_response preamble_reply = str ''The x''"
    unfolding clean_response_spec [symmetric]
    by (simp add: clean_response_def preamble_reply_def str_def py_startswith_def py_strip_def
          py_isspace_def Let_def py_startswith_any_def preamble_prefixes_def)
  have "mask_pii thinking_masking_env (str ''Alice, 1 Main St'') =
      Inr (str ''[NAME] lives at [ADDRESS]'')"
    using mask_pii_cleans_reply [OF reply] tag split first out by metis
  moreover have "mask_pii preamble_masking_env (str ''Alice, 1 Main St'') = Inr (str ''The x'')"
    using mask_pii_cleans_reply [OF reply'] no_tag out' by metis
  ultimately show ?thesis using reply tag reply' no_tag by simp
qed

text \<open>
  Read literally, without stripping the lines, the words of the specification give
  another text than \<open>mask_pii\<close> for a reply whose lines have surrounding whitespace.
\<close>

theorem mask_pii_strips_lines_counterexample:
  "ollama indented_masking_env (masking_prompt (str ''Alice, 1 Main St'')) = Inr indented_reply
   \<and> \<not> sublist (str ''<think>'') indented_reply
   \<and> mask_pii indented_masking_env (str ''Alice, 1 Main St'') = Inr (str ''[NAME] x'')
   \<and> spec_clean_response_unstripped indented_reply = str ''  Here is it  [NAME]  x''
   \<and> str ''[NAME] x'' \<noteq> str ''  Here is it  [NAME]  x''"
proof -
  have "\<not> sublist (str ''<think>'') indented_reply"
    by (simp add: indented_reply_def str_def nl_def sublist_Cons_right)
  moreover have "mask_pii indented_masking_env (str ''Alice, 1 Main St'') = Inr (str ''[NAME] x'')"
    by (simp add: mask_pii_def indented_masking_env_def clean_response_def skip_thinking_def
          indented_reply_def str_def nl_def py_startswith_def py_strip_def py_isspace_def Let_def
          py_startswith_any_def preamble_prefixes_def)
  moreover have "spec_clean_response_unstripped indented_reply = str ''  Here is it  [NAME]  x''"
    unfolding spec_clean_response_unstripped_def py_split_spec [symmetric]
    by (simp add: spec_preamble_def spec_join_spaces_def indented_reply_def str_def nl_def
          Let_def)
  moreover have "str ''[NAME] x'' \<noteq> str ''  Here is it  [NAME]  x''"
    by (simp add: str_def)
  ultimately show ?thesis by (simp add: indented_masking_env_def)
qed

lemma example_reply_masked:
  "clean_response (skip_thinking example_reply) = str ''[NAME], [ADDRESS]''"
  by (simp add: clean_response_def skip_thinking_def example_reply_def str_def nl_def
        py_startswith_def py_slice_from_def py_strip_def py_isspace_def Let_def
        py_startswith_any_def preamble_prefixes_def)

lemma example_mask_pii:
  "mask_pii example_masking_env text' = Inr (str ''[NAME], [ADDRESS]'')"
  by (simp add: mask_pii_def example_masking_env_def example_reply_masked)

text \<open>
  C8. For a masking request on an existing owned document whose masking step returns a
  text, the record persisted in \<open>maskedContent\<close> holds that text, \<open>masked_length\<close> is its
  length, and \<open>original_length\<close> is the length of the document's content; the response
  carries the same lengths. If the masking step raises, nothing is persisted.
\<close>

theorem masked_record_lengths:
  assumes "find_document document_id user_id s = Some d"
  shows "(\<forall>masked. mask_pii env (content d) = Inr masked \<longrightarrow>
            (\<exists>m d'. find_document document_id user_id
                       (snd (mask_document_content env document_id user_id s)) = Some d'
               \<and> maskedContent d' = Some m
               \<and> masked_content m = masked \<and> masked_length m = length masked
               \<and> original_content m = content d \<and> original_length m = length (content d)
               \<and> fst (mask_document_content env document_id user_id s) =
                   Inr \<lparr>m_document_id = document_id, m_masked_content = masked,
                         m_original_length = length (content d),
                         m_masked_length = length masked, m_masked_at = t_masked env\<rparr>))
       \<and> (\<forall>e. mask_pii env (content d) = Inl e \<longrightarrow>
            snd (mask_document_content env document_id user_id s) = s)"
proof -
  have uid: "userId d = user_id" using find_document_SomeD [OF assms] by simp
  show ?thesis
    using assms uid
    by (auto simp: mask_document_content_def Let_def find_document_commit)
qed

theorem masked_record_lengths_witness:
  "find_document 11 7 example_store \<noteq> None
   \<and> mask_pii example_masking_env (content (the (find_document 11 7 example_store))) =
       Inr (str ''[NAME], [ADDRESS]'')
   \<and> (\<exists>m. maskedContent (the (find_document 11 7
               (snd (mask_document_content example_masking_env 11 7 example_store)))) = Some m
         \<and> masked_length m = 17 \<and> original_length m = 16)
   \<and> mask_pii failing_masking_env (content (the (find_document 11 7 example_store))) =
       Inl (str ''Connection refused'')
   \<and> snd (mask_document_content failing_masking_env 11 7 example_store) = example_store"
proof -
  have fail: "mask_pii failing_masking_env text' = Inl (str ''Connection refused'')" for text'
    by (simp add: mask_pii_def failing_masking_env_def)
  have len: "length (str ''[NAME], [ADDRESS]'') = 17" "length (str ''Alice, 1 Main St'') = 16"
    by (simp_all add: str_def)
  from masked_record_lengths [OF example_store_11, of example_masking_env]
  have "\<exists>m. maskedContent (the (find_document 11 7
               (snd (mask_document_content example_masking_env 11 7 example_store)))) = Some m
         \<and> masked_length m = 17 \<and> original_length m = 16"
    using example_mask_pii len by fastforce
  moreover from masked_record_lengths [OF example_store_11, of failing_masking_env]
  have "snd (mask_document_content failing_masking_env 11 7 example_store) = example_store"
    using fail by blast
  ultimately show ?thesis
    using example_store_11 example_mask_pii fail by simp
qed

end
